theory Spec2Isabelle
  imports Main
begin

section \<open>JavaScript values\<close>

text \<open>
  The handlers of the application receive server responses and stored text as untyped
  JavaScript values (\<^verbatim>\<open>await response.json()\<close>, \<^verbatim>\<open>JSON.parse\<close>), and decide by
  truthiness (\<^verbatim>\<open>!data.access_token\<close>, \<^verbatim>\<open>data.detail || data.error\<close>). The values are
  modelled by one datatype. A string is the list of the bytes of its UTF-8 encoding (a
  surrogate that stands alone is encoded like any other code unit). A number is kept with
  its exact decimal value: \<open>JNum n\<close> is the integer \<open>n\<close>, and \<open>JDec m k\<close> is \<open>m / 10 ^ k\<close>,
  used for the values that are not integers. JavaScript rounds a number to the nearest
  double; the model keeps the exact value, and accounts for the rounding where a handler
  can observe it, in the test for zero.
\<close>

datatype jsval =
    JUndefined
  | JNull
  | JBool bool
  | JNum int
  | JDec int nat
  | JStr string
  | JArr "jsval list"
  | JObj "(string \<times> jsval) list"

text \<open>
  The number \<open>m / 10 ^ k\<close> is rounded to zero when its magnitude is at most half of the
  smallest positive double, \<open>2 ^ -1074\<close>.
\<close>

definition rounds_to_zero :: "int \<Rightarrow> nat \<Rightarrow> bool" where
  "rounds_to_zero m k = (\<bar>m\<bar> * 2 ^ 1075 \<le> 10 ^ k)"

text \<open>ToBoolean: what \<^verbatim>\<open>if (v)\<close>, \<^verbatim>\<open>!v\<close> and \<^verbatim>\<open>v || w\<close> test.\<close>

fun truthy :: "jsval \<Rightarrow> bool" where
  "truthy JUndefined = False"
| "truthy JNull = False"
| "truthy (JBool b) = b"
| "truthy (JNum n) = (n \<noteq> 0)"
| "truthy (JDec m k) = (\<not> rounds_to_zero m k)"
| "truthy (JStr s) = (s \<noteq> [])"
| "truthy (JArr xs) = True"
| "truthy (JObj fs) = True"

text \<open>\<^verbatim>\<open>a || b\<close> on values that are already evaluated.\<close>

definition js_or :: "jsval \<Rightarrow> jsval \<Rightarrow> jsval" where
  "js_or a b = (if truthy a then a else b)"

text \<open>
  Exceptions. \<open>Error m\<close> is \<^verbatim>\<open>new Error(m)\<close> thrown by the application; the others are
  raised by the platform: \<open>FetchError m\<close> when \<^verbatim>\<open>fetch\<close> rejects, \<open>SyntaxError m\<close> when
  \<^verbatim>\<open>response.json()\<close> rejects, \<open>TypeError v k\<close> when property \<open>k\<close> is read from \<open>v\<close>,
  which is \<^verbatim>\<open>null\<close> or \<^verbatim>\<open>undefined\<close>, and \<open>NotAFunction f\<close> when \<open>f\<close> is called and is not a
  function. The messages of the last two are those of V8.
\<close>

datatype exn =
    Error string
  | FetchError string
  | SyntaxError string
  | TypeError string string
  | NotAFunction string

fun message :: "exn \<Rightarrow> string" where
  "message (Error m) = m"
| "message (FetchError m) = m"
| "message (SyntaxError m) = m"
| "message (TypeError v k) =
     ''Cannot read properties of '' @ v @ '' (reading '' @ [CHR 0x27] @ k @ [CHR 0x27] @ '')''"
| "message (NotAFunction f) = f @ '' is not a function''"

definition bindE :: "exn + 'a \<Rightarrow> ('a \<Rightarrow> exn + 'b) \<Rightarrow> exn + 'b" where
  "bindE m f = (case m of Inl e \<Rightarrow> Inl e | Inr v \<Rightarrow> f v)"

text \<open>
  Reading a property \<^verbatim>\<open>v.k\<close>. The last binding of a key wins. The keys the application
  reads (\<^verbatim>\<open>detail\<close>, \<^verbatim>\<open>error\<close>, \<^verbatim>\<open>access_token\<close>, \<^verbatim>\<open>user\<close>, ...) are not
  properties of any prototype, so every value that is not an object yields
  \<^verbatim>\<open>undefined\<close>, and \<^verbatim>\<open>null\<close> and \<^verbatim>\<open>undefined\<close> throw.
\<close>

fun get_prop :: "jsval \<Rightarrow> string \<Rightarrow> exn + jsval" where
  "get_prop JUndefined k = Inl (TypeError ''undefined'' k)"
| "get_prop JNull k = Inl (TypeError ''null'' k)"
| "get_prop (JObj fs) k = (case map_of (rev fs) k of None \<Rightarrow> Inr JUndefined | Some v \<Rightarrow> Inr v)"
| "get_prop v k = Inr JUndefined"

subsection \<open>Conversion to text\<close>

fun join :: "string \<Rightarrow> string list \<Rightarrow> string" where
  "join sep [] = []"
| "join sep [x] = x"
| "join sep (x # y # ys) = x @ sep @ join sep (y # ys)"

function string_of_nat :: "nat \<Rightarrow> string" where
  "string_of_nat n =
     (if n < 10 then [''0123456789'' ! n]
      else string_of_nat (n div 10) @ [''0123456789'' ! (n mod 10)])"
  by pat_completeness auto
termination
  by (relation "measure id") auto

definition string_of_int :: "int \<Rightarrow> string" where
  "string_of_int i = (if i < 0 then ''-'' @ string_of_nat (nat (- i)) else string_of_nat (nat i))"

text \<open>The decimal expansion of \<open>m / 10 ^ k\<close>.\<close>

definition dec_text :: "int \<Rightarrow> nat \<Rightarrow> string" where
  "dec_text m k =
     (let ds = string_of_nat (nat \<bar>m\<bar>);
          padded = replicate (Suc k - length ds) (CHR ''0'') @ ds;
          n = length padded
      in (if m < 0 then ''-'' else []) @ take (n - k) padded @ ''.'' @ drop (n - k) padded)"

text \<open>
  ToString, as applied by template literals, \<^verbatim>\<open>new Error(v)\<close> and \<^verbatim>\<open>setItem\<close>. A number
  is written with all its digits; JavaScript writes the rounded double, which is the same
  text for the integers below \<open>2 ^ 53\<close> and for short decimals of ordinary size.
\<close>

fun toString :: "jsval \<Rightarrow> string" where
  "toString JUndefined = ''undefined''"
| "toString JNull = ''null''"
| "toString (JBool b) = (if b then ''true'' else ''false'')"
| "toString (JNum n) = string_of_int n"
| "toString (JDec m k) = (if rounds_to_zero m k then ''0'' else dec_text m k)"
| "toString (JStr s) = s"
| "toString (JArr xs) =
     join '','' (map (\<lambda>x. if x = JNull \<or> x = JUndefined then [] else toString x) xs)"
| "toString (JObj fs) = ''[object Object]''"

subsection \<open>JSON text\<close>

definition is_ws :: "char \<Rightarrow> bool" where
  "is_ws c = (c = CHR 0x20 \<or> c = CHR 0x09 \<or> c = CHR 0x0A \<or> c = CHR 0x0D)"

definition skip_ws :: "string \<Rightarrow> string" where
  "skip_ws cs = dropWhile is_ws cs"

definition is_digit :: "char \<Rightarrow> bool" where
  "is_digit c = (c \<in> set ''0123456789'')"

definition digit_val :: "char \<Rightarrow> int" where
  "digit_val c = of_char c - 48"

definition hex_val :: "char \<Rightarrow> nat option" where
  "hex_val c =
     (if is_digit c then Some (of_char c - 48)
      else if c \<in> set ''abcdef'' then Some (of_char c - 87)
      else if c \<in> set ''ABCDEF'' then Some (of_char c - 55)
      else None)"

definition unescape :: "char \<Rightarrow> char option" where
  "unescape e =
     (if e = CHR 0x22 then Some (CHR 0x22)
      else if e = CHR 0x5C then Some (CHR 0x5C)
      else if e = CHR ''/'' then Some (CHR ''/'')
      else if e = CHR ''b'' then Some (CHR 0x08)
      else if e = CHR ''f'' then Some (CHR 0x0C)
      else if e = CHR ''n'' then Some (CHR 0x0A)
      else if e = CHR ''r'' then Some (CHR 0x0D)
      else if e = CHR ''t'' then Some (CHR 0x09)
      else None)"

text \<open>The UTF-8 encoding of a code point, and the four hexadecimal digits of an escape.\<close>

definition utf8 :: "nat \<Rightarrow> string" where
  "utf8 cp =
     (if cp < 128 then [char_of cp]
      else if cp < 2048 then [char_of (192 + cp div 64), char_of (128 + cp mod 64)]
      else if cp < 65536 then
        [char_of (224 + cp div 4096), char_of (128 + cp div 64 mod 64), char_of (128 + cp mod 64)]
      else
        [char_of (240 + cp div 262144), char_of (128 + cp div 4096 mod 64),
         char_of (128 + cp div 64 mod 64), char_of (128 + cp mod 64)])"

definition hex4 :: "string \<Rightarrow> nat option" where
  "hex4 ds =
     (case map hex_val ds of
        [Some a, Some b, Some c, Some d] \<Rightarrow> Some (4096 * a + 256 * b + 16 * c + d)
      | _ \<Rightarrow> None)"

text \<open>
  The characters of a string literal, after the opening quote, up to the closing one. An
  escaped high surrogate followed by an escaped low surrogate is one code point.
\<close>

function parse_chars :: "string \<Rightarrow> (string \<times> string) option" where
  "parse_chars [] = None"
| "parse_chars (c # cs) =
     (if c = CHR 0x22 then Some ([], cs)
      else if c = CHR 0x5C then
        (case cs of
           [] \<Rightarrow> None
         | e # r \<Rightarrow>
            (if e = CHR ''u'' then
               (case hex4 (take 4 r) of
                  None \<Rightarrow> None
                | Some u \<Rightarrow>
                   (case (if 55296 \<le> u \<and> u < 56320 \<and> take 2 (drop 4 r) = [CHR 0x5C, CHR ''u'']
                          then hex4 (take 4 (drop 6 r)) else None) of
                      None \<Rightarrow> map_option (\<lambda>(s, t). (utf8 u @ s, t)) (parse_chars (drop 4 r))
                    | Some v \<Rightarrow>
                       (if 56320 \<le> v \<and> v < 57344 then
                          map_option
                            (\<lambda>(s, t). (utf8 (65536 + (u - 55296) * 1024 + (v - 56320)) @ s, t))
                            (parse_chars (drop 10 r))
                        else map_option (\<lambda>(s, t). (utf8 u @ s, t)) (parse_chars (drop 4 r)))))
             else
               (case unescape e of
                  None \<Rightarrow> None
                | Some ch \<Rightarrow> map_option (\<lambda>(s, t). (ch # s, t)) (parse_chars r))))
      else if (of_char c :: nat) < 32 then None
      else map_option (\<lambda>(s, t). (c # s, t)) (parse_chars cs))"
  by pat_completeness auto
termination
  by (relation "measure length") auto

text \<open>
  A number literal: an optional minus sign, then \<^verbatim>\<open>0\<close> or digits without a leading zero,
  then an optional fraction (a point and at least one digit) and an optional exponent
  (\<^verbatim>\<open>e\<close> or \<^verbatim>\<open>E\<close>, an optional sign and at least one digit). \<open>number m e\<close> is the value
  \<open>m * 10 ^ e\<close>: an integer, or zero when it rounds to zero, or a decimal in lowest terms.
\<close>

definition digits_val :: "string \<Rightarrow> int" where
  "digits_val ds = foldl (\<lambda>n d. 10 * n + digit_val d) 0 ds"

definition parse_frac :: "string \<Rightarrow> (string \<times> string) option" where
  "parse_frac cs =
     (case cs of
        [] \<Rightarrow> Some ([], [])
      | c # r \<Rightarrow>
         (if c = CHR ''.'' then
            (if takeWhile is_digit r = [] then None
             else Some (takeWhile is_digit r, dropWhile is_digit r))
          else Some ([], cs)))"

definition parse_exp :: "string \<Rightarrow> (int \<times> string) option" where
  "parse_exp cs =
     (case cs of
        [] \<Rightarrow> Some (0, [])
      | c # r \<Rightarrow>
         (if c = CHR ''e'' \<or> c = CHR ''E'' then
            (let neg = (take 1 r = ''-'');
                 r1 = (if take 1 r = ''-'' \<or> take 1 r = ''+'' then drop 1 r else r);
                 ds = takeWhile is_digit r1
             in if ds = [] then None
                else Some (if neg then - digits_val ds else digits_val ds,
                           dropWhile is_digit r1))
          else Some (0, cs)))"

fun reduce :: "int \<Rightarrow> nat \<Rightarrow> int \<times> nat" where
  "reduce m 0 = (m, 0)"
| "reduce m (Suc k) = (if m mod 10 = 0 then reduce (m div 10) k else (m, Suc k))"

definition number :: "int \<Rightarrow> int \<Rightarrow> jsval" where
  "number m e =
     (if 0 \<le> e then JNum (m * 10 ^ nat e)
      else
        (case reduce m (nat (- e)) of
           (m', k) \<Rightarrow>
             if k = 0 then JNum m'
             else if rounds_to_zero m' k then JNum 0
             else JDec m' k))"

definition parse_number :: "string \<Rightarrow> (jsval \<times> string) option" where
  "parse_number cs =
     (let neg = (take 1 cs = ''-'');
          r0 = (if neg then drop 1 cs else cs);
          ip = takeWhile is_digit r0
      in if ip = [] \<or> (take 1 ip = ''0'' \<and> length ip > 1) then None
         else
           (case parse_frac (dropWhile is_digit r0) of
              None \<Rightarrow> None
            | Some (fp, r2) \<Rightarrow>
               (case parse_exp r2 of
                  None \<Rightarrow> None
                | Some (ex, r3) \<Rightarrow>
                    Some (number ((if neg then - 1 else 1) * digits_val (ip @ fp))
                            (ex - int (length fp)), r3))))"

text \<open>
  An object keeps one binding per key: a later binding of the same key replaces the value.
\<close>

definition obj_put :: "(string \<times> jsval) list \<Rightarrow> string \<Rightarrow> jsval \<Rightarrow> (string \<times> jsval) list" where
  "obj_put fs k v =
     (if k \<in> fst ` set fs then map (\<lambda>(k', v'). if k' = k then (k', v) else (k', v')) fs
      else fs @ [(k, v)])"

text \<open>
  Recursive descent. The first argument bounds the number of nested calls; \<open>JSON_parse\<close>
  starts with twice the length of the text plus two, which is always enough (lemma
  \<open>JSON_parse_fuel\<close> below).
\<close>

fun parse_value :: "nat \<Rightarrow> string \<Rightarrow> (jsval \<times> string) option"
  and parse_elems :: "nat \<Rightarrow> string \<Rightarrow> (jsval list \<times> string) option"
  and parse_members :: "nat \<Rightarrow> (string \<times> jsval) list \<Rightarrow> string \<Rightarrow> ((string \<times> jsval) list \<times> string) option"
where
  "parse_value 0 cs = None"
| "parse_value (Suc n) cs =
     (let ts = skip_ws cs in
      if take 4 ts = ''null'' then Some (JNull, drop 4 ts)
      else if take 4 ts = ''true'' then Some (JBool True, drop 4 ts)
      else if take 5 ts = ''false'' then Some (JBool False, drop 5 ts)
      else
        (case ts of
           [] \<Rightarrow> None
         | c # r \<Rightarrow>
            (if c = CHR 0x22 then map_option (\<lambda>(s, t). (JStr s, t)) (parse_chars r)
             else if c = CHR ''['' then
               (case skip_ws r of
                  [] \<Rightarrow> None
                | d # r' \<Rightarrow>
                   (if d = CHR '']'' then Some (JArr [], r')
                    else map_option (\<lambda>(vs, t). (JArr vs, t)) (parse_elems n r)))
             else if c = CHR ''{'' then
               (case skip_ws r of
                  [] \<Rightarrow> None
                | d # r' \<Rightarrow>
                   (if d = CHR ''}'' then Some (JObj [], r')
                    else map_option (\<lambda>(fs, t). (JObj fs, t)) (parse_members n [] r)))
             else parse_number ts)))"
| "parse_elems 0 cs = None"
| "parse_elems (Suc n) cs =
     (case parse_value n cs of
        None \<Rightarrow> None
      | Some (v, r) \<Rightarrow>
         (case skip_ws r of
            [] \<Rightarrow> None
          | d # r' \<Rightarrow>
             (if d = CHR '','' then map_option (\<lambda>(vs, t). (v # vs, t)) (parse_elems n r')
              else if d = CHR '']'' then Some ([v], r')
              else None)))"
| "parse_members 0 acc cs = None"
| "parse_members (Suc n) acc cs =
     (case skip_ws cs of
        [] \<Rightarrow> None
      | q # r \<Rightarrow>
         (if q \<noteq> CHR 0x22 then None
          else
            (case parse_chars r of
               None \<Rightarrow> None
             | Some (k, r1) \<Rightarrow>
                (case skip_ws r1 of
                   [] \<Rightarrow> None
                 | c # r2 \<Rightarrow>
                    (if c \<noteq> CHR '':'' then None
                     else
                       (case parse_value n r2 of
                          None \<Rightarrow> None
                        | Some (v, r3) \<Rightarrow>
                           (case skip_ws r3 of
                              [] \<Rightarrow> None
                            | d # r4 \<Rightarrow>
                               (if d = CHR '','' then parse_members n (obj_put acc k v) r4
                                else if d = CHR ''}'' then Some (obj_put acc k v, r4)
                                else None))))))))"

text \<open>\<^verbatim>\<open>JSON.parse(s)\<close>; \<open>None\<close> is the SyntaxError it throws.\<close>

definition JSON_parse :: "string \<Rightarrow> jsval option" where
  "JSON_parse s =
     (case parse_value (2 * length s + 2) s of
        None \<Rightarrow> None
      | Some (v, r) \<Rightarrow> if skip_ws r = [] then Some v else None)"

text \<open>
  \<^verbatim>\<open>JSON.stringify(v)\<close>: a property whose value is \<^verbatim>\<open>undefined\<close> is left out of an
  object, in an array it is written \<^verbatim>\<open>null\<close>, and at the top the result is
  \<^verbatim>\<open>undefined\<close> itself. Properties are written in the order of the list.
\<close>

definition quote_char :: "char \<Rightarrow> string" where
  "quote_char c =
     (if c = CHR 0x22 then [CHR 0x5C, CHR 0x22]
      else if c = CHR 0x5C then [CHR 0x5C, CHR 0x5C]
      else if c = CHR 0x08 then [CHR 0x5C, CHR ''b'']
      else if c = CHR 0x0C then [CHR 0x5C, CHR ''f'']
      else if c = CHR 0x0A then [CHR 0x5C, CHR ''n'']
      else if c = CHR 0x0D then [CHR 0x5C, CHR ''r'']
      else if c = CHR 0x09 then [CHR 0x5C, CHR ''t'']
      else if (of_char c :: nat) < 32 then
        [CHR 0x5C, CHR ''u'', CHR ''0'', CHR ''0'',
         ''0123456789abcdef'' ! (of_char c div 16), ''0123456789abcdef'' ! (of_char c mod 16)]
      else [c])"

definition quote :: "string \<Rightarrow> string" where
  "quote s = [CHR 0x22] @ concat (map quote_char s) @ [CHR 0x22]"

fun stringify :: "jsval \<Rightarrow> string"
  and stringify_elems :: "jsval list \<Rightarrow> string list"
  and stringify_members :: "(string \<times> jsval) list \<Rightarrow> string list"
where
  "stringify JUndefined = ''null''"
| "stringify JNull = ''null''"
| "stringify (JBool b) = (if b then ''true'' else ''false'')"
| "stringify (JNum n) = string_of_int n"
| "stringify (JDec m k) = (if rounds_to_zero m k then ''0'' else dec_text m k)"
| "stringify (JStr s) = quote s"
| "stringify (JArr xs) = ''['' @ join '','' (stringify_elems xs) @ '']''"
| "stringify (JObj fs) = ''{'' @ join '','' (stringify_members fs) @ ''}''"
| "stringify_elems [] = []"
| "stringify_elems (x # xs) = stringify x # stringify_elems xs"
| "stringify_members [] = []"
| "stringify_members ((k, v) # fs) =
     (if v = JUndefined then stringify_members fs
      else (quote k @ '':'' @ stringify v) # stringify_members fs)"

definition JSON_stringify :: "jsval \<Rightarrow> jsval" where
  "JSON_stringify v = (if v = JUndefined then JUndefined else JStr (stringify v))"

section \<open>HTTP\<close>

text \<open>
  A request as the application builds it, and what \<^verbatim>\<open>await fetch(...)\<close> followed by
  \<^verbatim>\<open>await response.json()\<close> can give: \<open>Rejected m\<close> when \<^verbatim>\<open>fetch\<close> itself rejects
  (a network error), otherwise the status and either the parsed body or the message of the
  error with which \<^verbatim>\<open>response.json()\<close> rejects. The remote service is a parameter of
  every handler: a function from requests to outcomes.
\<close>

datatype js_file = File (file_name: string) (file_type: string) (file_size: nat)

datatype body =
    NoBody
  | FormUrlEncoded "(string \<times> string) list"
  | FormData js_file
  | JsonBody jsval

record request =
  url :: string
  headers :: "(string \<times> string) list"
  body :: body

datatype fetch_outcome =
    Rejected string
  | Response nat "string + jsval"

type_synonym server = "request \<Rightarrow> fetch_outcome"

text \<open>\<^verbatim>\<open>response.ok\<close>: the status is in the range 200 to 299.\<close>

definition response_ok :: "nat \<Rightarrow> bool" where
  "response_ok status = (200 \<le> status \<and> status \<le> 299)"

text \<open>The value of \<^verbatim>\<open>API_BASE_URL\<close> when \<^verbatim>\<open>VITE_API_URL\<close> is not set.\<close>

definition API_BASE_URL :: string where
  "API_BASE_URL = ''http://127.0.0.1:8000''"

section \<open>Session manager (AuthContext.tsx)\<close>

text \<open>
  \<^verbatim>\<open>localStorage\<close> maps keys to strings; \<^verbatim>\<open>getItem\<close> gives \<^verbatim>\<open>null\<close> for a missing key
  and \<^verbatim>\<open>setItem\<close> stores the text of its argument.
\<close>

type_synonym storage = "string \<Rightarrow> string option"

definition getItem :: "storage \<Rightarrow> string \<Rightarrow> jsval" where
  "getItem ls k = (case ls k of None \<Rightarrow> JNull | Some v \<Rightarrow> JStr v)"

definition setItem :: "storage \<Rightarrow> string \<Rightarrow> jsval \<Rightarrow> storage" where
  "setItem ls k v = ls(k \<mapsto> toString v)"

definition removeItem :: "storage \<Rightarrow> string \<Rightarrow> storage" where
  "removeItem ls k = ls(k := None)"

text \<open>The state of \<^verbatim>\<open>AuthProvider\<close>: the four \<^verbatim>\<open>useState\<close> cells, with their initial values.\<close>

record session =
  user :: jsval
  isLoggedIn :: bool
  isLoading :: bool
  token :: jsval

definition initial_session :: session where
  "initial_session = \<lparr>user = JNull, isLoggedIn = False, isLoading = True, token = JNull\<rparr>"

text \<open>The effect that runs once after mounting (lines 42 to 63).\<close>

definition initialize :: "storage \<Rightarrow> session \<Rightarrow> session \<times> storage" where
  "initialize ls s =
     (let storedUser = getItem ls ''user'';
          storedToken = getItem ls ''token'';
          storedIsLoggedIn = (getItem ls ''isLoggedIn'' = JStr ''true'')
      in
      if storedIsLoggedIn \<and> truthy storedUser \<and> truthy storedToken then
        (case JSON_parse (toString storedUser) of
           Some u \<Rightarrow>
             (s\<lparr>user := u, token := storedToken, isLoggedIn := True, isLoading := False\<rparr>, ls)
         | None \<Rightarrow>
             (s\<lparr>user := JNull, token := JNull, isLoggedIn := False, isLoading := False\<rparr>,
              removeItem (removeItem (removeItem ls ''user'') ''token'') ''isLoggedIn''))
      else (s\<lparr>isLoading := False\<rparr>, ls))"

text \<open>
  \<^verbatim>\<open>login\<close> (lines 65 to 105). \<open>login_request\<close> is the request it sends. \<open>login_try\<close> is
  the \<^verbatim>\<open>try\<close> block up to the point where it either throws or has the user object and the
  access token in hand; \<^verbatim>\<open>||\<close> and \<^verbatim>\<open>!\<close> evaluate their operands from left to right
  and stop early, so a property is read only where the source reads it.
\<close>

definition login_request :: "string \<Rightarrow> string \<Rightarrow> request" where
  "login_request email password =
     \<lparr>url = API_BASE_URL @ ''/api/login'',
      headers = [(''Content-Type'', ''application/x-www-form-urlencoded'')],
      body = FormUrlEncoded
        [(''username'', email), (''password'', password), (''grant_type'', ''password'')]\<rparr>"

definition login_try :: "fetch_outcome \<Rightarrow> exn + (jsval \<times> jsval)" where
  "login_try out =
     (case out of
        Rejected m \<Rightarrow> Inl (FetchError m)
      | Response status b \<Rightarrow>
         (case b of
            Inl m \<Rightarrow> Inl (SyntaxError m)
          | Inr data \<Rightarrow>
             bindE
               (if \<not> response_ok status then Inr True
                else bindE (get_prop data ''access_token'') (\<lambda>t.
                  if \<not> truthy t then Inr True
                  else bindE (get_prop data ''user'') (\<lambda>u. Inr (\<not> truthy u))))
               (\<lambda>failed.
                  if failed then
                    bindE (get_prop data ''detail'') (\<lambda>d.
                      if truthy d then Inl (Error (toString d))
                      else bindE (get_prop data ''error'') (\<lambda>e.
                        Inl (Error (toString (js_or e
                          (JStr (''Login failed (status '' @ string_of_nat status @ '')'')))))))
                  else
                    bindE (get_prop data ''access_token'') (\<lambda>t.
                    bindE (get_prop data ''user'') (\<lambda>u.
                    bindE (get_prop u ''name'') (\<lambda>nm.
                    bindE (get_prop u ''email'') (\<lambda>em.
                      Inr (JObj [(''name'', nm), (''email'', em)], t))))))))"

definition clear_session_keys :: "storage \<Rightarrow> storage" where
  "clear_session_keys ls = removeItem (removeItem (removeItem ls ''user'') ''token'') ''isLoggedIn''"

definition login :: "server \<Rightarrow> string \<Rightarrow> string \<Rightarrow> session \<times> storage \<Rightarrow> (exn + unit) \<times> session \<times> storage" where
  "login srv email password \<sigma> =
     (case \<sigma> of (s, ls) \<Rightarrow>
        (case login_try (srv (login_request email password)) of
           Inr (userData, access_token) \<Rightarrow>
             (Inr (),
              s\<lparr>user := userData, token := access_token, isLoggedIn := True, isLoading := False\<rparr>,
              setItem (setItem (setItem ls ''user'' (JSON_stringify userData))
                ''token'' access_token) ''isLoggedIn'' (JStr ''true''))
         | Inl e \<Rightarrow>
             (Inl e,
              s\<lparr>user := JNull, token := JNull, isLoggedIn := False, isLoading := False\<rparr>,
              clear_session_keys ls)))"

text \<open>\<^verbatim>\<open>logout\<close> (lines 107 to 118); the third component is the route it navigates to.\<close>

definition logout :: "session \<times> storage \<Rightarrow> session \<times> storage \<times> string" where
  "logout \<sigma> =
     (case \<sigma> of (s, ls) \<Rightarrow>
        (s\<lparr>user := JNull, token := JNull, isLoggedIn := False\<rparr>,
         removeItem (removeItem (clear_session_keys ls) ''userName'') ''userEmail'',
         ''/login''))"

text \<open>\<^verbatim>\<open>getAuthHeader\<close> (lines 120 to 127) reads the token from storage, not from the state.\<close>

definition getAuthHeader :: "storage \<Rightarrow> (string \<times> string) list" where
  "getAuthHeader ls =
     (let currentToken = getItem ls ''token'' in
      if truthy currentToken then [(''Authorization'', ''Bearer '' @ toString currentToken)]
      else [])"

subsection \<open>Properties of the session\<close>

text \<open>The invariant of the session, and the three persisted keys seen as a group.\<close>

definition session_inv :: "session \<Rightarrow> bool" where
  "session_inv s = (if isLoggedIn s then user s \<noteq> JNull \<and> token s \<noteq> JNull else True)"

definition keys_all_present :: "storage \<Rightarrow> bool" where
  "keys_all_present ls = (ls ''user'' \<noteq> None \<and> ls ''token'' \<noteq> None \<and> ls ''isLoggedIn'' \<noteq> None)"

definition keys_all_absent :: "storage \<Rightarrow> bool" where
  "keys_all_absent ls = (ls ''user'' = None \<and> ls ''token'' = None \<and> ls ''isLoggedIn'' = None)"

definition keys_untouched :: "storage \<Rightarrow> storage \<Rightarrow> bool" where
  "keys_untouched ls ls' =
     (ls' ''user'' = ls ''user'' \<and> ls' ''token'' = ls ''token'' \<and> ls' ''isLoggedIn'' = ls ''isLoggedIn'')"

definition logged_out :: "session \<Rightarrow> bool" where
  "logged_out s = (isLoggedIn s = False \<and> user s = JNull \<and> token s = JNull)"

text \<open>
  The guard of the initial effect: \<^verbatim>\<open>isLoggedIn\<close> is stored as \<^verbatim>\<open>"true"\<close> and the
  stored \<^verbatim>\<open>user\<close> and \<^verbatim>\<open>token\<close> are present and not empty.
\<close>

definition stored_complete :: "storage \<Rightarrow> bool" where
  "stored_complete ls =
     (ls ''isLoggedIn'' = Some ''true'' \<and> ls ''user'' \<noteq> None \<and> ls ''user'' \<noteq> Some []
      \<and> ls ''token'' \<noteq> None \<and> ls ''token'' \<noteq> Some [])"

definition stored_user_parse :: "storage \<Rightarrow> jsval option" where
  "stored_user_parse ls = (case ls ''user'' of None \<Rightarrow> None | Some v \<Rightarrow> JSON_parse v)"



text \<open>
  One operation on the three persisted keys: it leaves them as they were, or leaves all
  three present, or leaves all three absent.
\<close>

definition group_step :: "storage \<Rightarrow> storage \<Rightarrow> bool" where
  "group_step ls ls' = (keys_untouched ls ls' \<or> keys_all_present ls' \<or> keys_all_absent ls')"

section \<open>Effects of the screens\<close>

text \<open>
  What a handler does besides updating its component's state: it shows a toast (title,
  description, and whether the variant is destructive), sends a request, or starts reading
  a file for the preview. A handler is modelled as a function from the state to the new
  state and the list of its effects, in order. An \<^verbatim>\<open>async\<close> handler has two parts: what it
  does up to its \<^verbatim>\<open>await fetch(...)\<close>, and what it does with the outcome.
\<close>

datatype effect =
    Toast string string bool
  | Fetch request
  | ReadAsDataURL js_file

fun requests :: "effect list \<Rightarrow> request list" where
  "requests [] = []"
| "requests (Fetch r # es) = r # requests es"
| "requests (e # es) = requests es"

text \<open>
  \<^verbatim>\<open>String.prototype.trim\<close> removes white space and line terminators from both ends:
  U+0009 to U+000D, U+0020, U+00A0, U+1680, U+2000 to U+200A, U+2028, U+2029, U+202F,
  U+205F, U+3000 and U+FEFF, listed here in their UTF-8 encoding.
\<close>

definition space_seqs :: "string list" where
  "space_seqs =
     [[CHR 0x09], [CHR 0x0A], [CHR 0x0B], [CHR 0x0C], [CHR 0x0D], [CHR 0x20],
      [CHR 0xC2, CHR 0xA0], [CHR 0xE1, CHR 0x9A, CHR 0x80],
      [CHR 0xE2, CHR 0x80, CHR 0x80], [CHR 0xE2, CHR 0x80, CHR 0x81],
      [CHR 0xE2, CHR 0x80, CHR 0x82], [CHR 0xE2, CHR 0x80, CHR 0x83],
      [CHR 0xE2, CHR 0x80, CHR 0x84], [CHR 0xE2, CHR 0x80, CHR 0x85],
      [CHR 0xE2, CHR 0x80, CHR 0x86], [CHR 0xE2, CHR 0x80, CHR 0x87],
      [CHR 0xE2, CHR 0x80, CHR 0x88], [CHR 0xE2, CHR 0x80, CHR 0x89],
      [CHR 0xE2, CHR 0x80, CHR 0x8A], [CHR 0xE2, CHR 0x80, CHR 0xA8],
      [CHR 0xE2, CHR 0x80, CHR 0xA9], [CHR 0xE2, CHR 0x80, CHR 0xAF],
      [CHR 0xE2, CHR 0x81, CHR 0x9F], [CHR 0xE3, CHR 0x80, CHR 0x80],
      [CHR 0xEF, CHR 0xBB, CHR 0xBF]]"

function strip_spaces :: "string list \<Rightarrow> string \<Rightarrow> string" where
  "strip_spaces ws s =
     (case find (\<lambda>w. w \<noteq> [] \<and> take (length w) s = w) ws of
        None \<Rightarrow> s
      | Some w \<Rightarrow> strip_spaces ws (drop (length w) s))"
  by pat_completeness auto
termination
proof (relation "measure (\<lambda>(ws, s). length s)")
  show "wf (measure (\<lambda>(ws, s). length s))" by simp
next
  fix ws :: "string list" and s w :: string
  assume "find (\<lambda>w. w \<noteq> [] \<and> take (length w) s = w) ws = Some w"
  then have w: "w \<noteq> []" and t: "take (length w) s = w"
    by (auto simp: find_Some_iff)
  from t have "length (take (length w) s) = length w"
    by simp
  then have "length w \<le> length s"
    by simp
  with w show "((ws, drop (length w) s), (ws, s)) \<in> measure (\<lambda>(ws, s). length s)"
    by (cases w) auto
qed

definition js_trim :: "string \<Rightarrow> string" where
  "js_trim s = rev (strip_spaces (map rev space_seqs) (rev (strip_spaces space_seqs s)))"

text \<open>\<^verbatim>\<open>error.message || fallback\<close> in the \<^verbatim>\<open>catch\<close> blocks.\<close>

definition message_or :: "exn \<Rightarrow> string \<Rightarrow> string" where
  "message_or e fallback = (if message e = [] then fallback else message e)"

definition allowedTypes :: "string list" where
  "allowedTypes = [''image/jpeg'', ''image/png'', ''application/pdf'']"

definition max_file_size :: nat where
  "max_file_size = 10 * 1024 * 1024"

subsection \<open>The responses of the three endpoints\<close>

text \<open>
  The \<^verbatim>\<open>try\<close> block after \<^verbatim>\<open>/solve-text\<close>, the same text in
  \<^verbatim>\<open>handleGenerateSolution\<close> (TutorComponent.tsx, lines 341 to 353) and
  \<^verbatim>\<open>solveQuestion\<close> (Index.tsx, lines 203 to 212): it throws, or has the solution.
\<close>

definition solve_try :: "fetch_outcome \<Rightarrow> exn + jsval" where
  "solve_try out =
     (case out of
        Rejected m \<Rightarrow> Inl (FetchError m)
      | Response status b \<Rightarrow>
         (case b of
            Inl m \<Rightarrow> Inl (SyntaxError m)
          | Inr data \<Rightarrow>
             if \<not> response_ok status then
               bindE (get_prop data ''error'') (\<lambda>e.
                 if truthy e then Inl (Error (toString e))
                 else bindE (get_prop data ''detail'') (\<lambda>d.
                   Inl (Error (toString
                     (js_or (if truthy d then JSON_stringify d else JNull)
                        (JStr (''HTTP error! status: '' @ string_of_nat status)))))))
             else
               bindE (get_prop data ''error'') (\<lambda>e.
                 if truthy e then Inl (Error (toString e)) else Inr data)))"

text \<open>
  The \<^verbatim>\<open>try\<close> block after \<^verbatim>\<open>/upload-image\<close>, the same text in both
  \<^verbatim>\<open>extractQuestion\<close> handlers (TutorComponent.tsx, lines 517 to 535; Index.tsx, lines 147
  to 162): it throws, or has \<^verbatim>\<open>data.extracted_text || ""\<close>.
\<close>

definition extract_try :: "fetch_outcome \<Rightarrow> exn + jsval" where
  "extract_try out =
     (case out of
        Rejected m \<Rightarrow> Inl (FetchError m)
      | Response status b \<Rightarrow>
         (case b of
            Inl m \<Rightarrow> Inl (SyntaxError m)
          | Inr data \<Rightarrow>
             if \<not> response_ok status then
               bindE (get_prop data ''detail'') (\<lambda>d.
                 if truthy d then Inl (Error (toString d))
                 else bindE (get_prop data ''error'') (\<lambda>e.
                   Inl (Error (toString
                     (js_or e (JStr (''HTTP error! status: '' @ string_of_nat status)))))))
             else
               bindE (get_prop data ''status'') (\<lambda>st.
               bindE (if st = JStr ''success''
                      then bindE (get_prop data ''extracted_text'') (\<lambda>x. Inr (x \<noteq> JUndefined))
                      else Inr False) (\<lambda>extracted.
                 if extracted then
                   bindE (get_prop data ''extracted_text'') (\<lambda>x. Inr (js_or x (JStr [])))
                 else
                   bindE (get_prop data ''error'') (\<lambda>e.
                     Inl (Error (toString (js_or e (JStr ''OCR failed. No text extracted.'')))))))))"

text \<open>The \<^verbatim>\<open>try\<close> block after \<^verbatim>\<open>/explain-step\<close> (TutorComponent.tsx, lines 408 to 412).\<close>

definition explain_try :: "fetch_outcome \<Rightarrow> exn + jsval" where
  "explain_try out =
     (case out of
        Rejected m \<Rightarrow> Inl (FetchError m)
      | Response status b \<Rightarrow>
         (case b of
            Inl m \<Rightarrow> Inl (SyntaxError m)
          | Inr data \<Rightarrow>
             bindE
               (if \<not> response_ok status then Inr True
                else bindE (get_prop data ''error'') (\<lambda>e. Inr (truthy e)))
               (\<lambda>failed.
                  if failed then
                    bindE (get_prop data ''error'') (\<lambda>e.
                      if truthy e then Inl (Error (toString e))
                      else bindE (get_prop data ''detail'') (\<lambda>d.
                        Inl (Error (toString
                          (js_or d (JStr (''HTTP error! status: '' @ string_of_nat status)))))))
                  else get_prop data ''explanation'')))"

section \<open>The tutor screen (TutorComponent.tsx)\<close>

text \<open>
  The state of \<^verbatim>\<open>TutorComponent\<close>: the cells of the problem input, the solution, the
  explanations of its steps and the upload, and the value of the file input element
  (\<open>None\<close> while \<^verbatim>\<open>fileInputRef.current\<close> is null). The cells of voice input, camera,
  practice, learning aids, graphing, experience points and bookmarks are not part of the
  model; where a handler below also awards experience points, that part reads one number
  from the response, cannot throw, and is left out.
\<close>

datatype query = Why | How

record step_explanation =
  explanation :: jsval
  isLoading :: bool
  error :: jsval
  queryType :: "query option"

record tutor =
  problemInput :: jsval
  solution :: jsval
  stepExplanations :: "int \<Rightarrow> step_explanation option"
  isLoadingSolution :: bool
  solutionError :: "string option"
  selectedFile :: "js_file option"
  imagePreviewUrl :: "string option"
  loadingOcr :: bool
  ocrApiError :: "string option"
  fileInput :: "string option"

text \<open>\<^verbatim>\<open>resetUploadState\<close> (lines 310 to 318).\<close>

definition resetUploadState :: "tutor \<Rightarrow> tutor" where
  "resetUploadState s =
     s\<lparr>selectedFile := None, imagePreviewUrl := None,
       fileInput := map_option (\<lambda>v. []) (fileInput s),
       loadingOcr := False, ocrApiError := None\<rparr>"

text \<open>
  \<^verbatim>\<open>!text.trim()\<close> on a cell that the types call a string: a value of another kind has
  no \<^verbatim>\<open>trim\<close> method, and the call throws.
\<close>

definition blank :: "string \<Rightarrow> jsval \<Rightarrow> exn + bool" where
  "blank name v =
     (case v of
        JStr t \<Rightarrow> Inr (js_trim t = [])
      | JNull \<Rightarrow> Inl (TypeError ''null'' ''trim'')
      | JUndefined \<Rightarrow> Inl (TypeError ''undefined'' ''trim'')
      | _ \<Rightarrow> Inl (NotAFunction (name @ ''.trim'')))"

text \<open>
  \<^verbatim>\<open>handleGenerateSolution\<close> (lines 321 to 384): the request, the part before the
  \<^verbatim>\<open>await\<close>, the part after it, and the whole handler.
\<close>

definition solve_request :: "storage \<Rightarrow> jsval \<Rightarrow> request" where
  "solve_request ls question =
     \<lparr>url = API_BASE_URL @ ''/solve-text'',
      headers = (''Content-Type'', ''application/json'') # getAuthHeader ls,
      body = JsonBody (JObj [(''question_text'', question)])\<rparr>"

definition handleGenerateSolution_begin :: "tutor \<Rightarrow> tutor" where
  "handleGenerateSolution_begin s =
     s\<lparr>isLoadingSolution := True, solution := JNull, stepExplanations := Map.empty,
       solutionError := None\<rparr>"

definition handleGenerateSolution_resume :: "fetch_outcome \<Rightarrow> tutor \<Rightarrow> tutor \<times> effect list" where
  "handleGenerateSolution_resume out s =
     (case solve_try out of
        Inr data \<Rightarrow>
          (s\<lparr>solution := data, isLoadingSolution := False\<rparr>,
           [Toast ''Solution Generated'' ''See the results below.'' False])
      | Inl e \<Rightarrow>
          (let errorMsg = message_or e ''Failed to connect to the solver service.'' in
           (s\<lparr>solutionError := Some (''Solver Error: '' @ errorMsg), solution := JNull,
              isLoadingSolution := False\<rparr>,
            [Toast ''Solving Failed'' errorMsg True])))"

definition handleGenerateSolution :: "server \<Rightarrow> storage \<Rightarrow> tutor \<Rightarrow> exn + (tutor \<times> effect list)" where
  "handleGenerateSolution srv ls s =
     bindE (blank ''problemInput'' (problemInput s)) (\<lambda>empty.
       if empty then
         Inr (s, [Toast ''Error''
           ''Problem text is empty. Enter, upload, or draw a problem first.'' True])
       else
         (let s1 = handleGenerateSolution_begin s;
              r = solve_request ls (problemInput s);
              (s2, es) = handleGenerateSolution_resume (srv r) s1
          in Inr (s2, Fetch r # es)))"

text \<open>
  \<^verbatim>\<open>handleExplainStep\<close> (lines 387 to 440). Each of its three updates of the cache is a
  function of the cache at the time of the update (\<^verbatim>\<open>prev => ({...prev, [stepNumber]: ...})\<close>);
  spreading a missing entry contributes no field.
\<close>

definition entry_loading :: "query \<Rightarrow> step_explanation option \<Rightarrow> step_explanation" where
  "entry_loading q prev =
     (case prev of
        None \<Rightarrow> \<lparr>explanation = JUndefined, isLoading = True, error = JNull, queryType = Some q\<rparr>
      | Some e \<Rightarrow> e\<lparr>isLoading := True, error := JNull, queryType := Some q\<rparr>)"

definition entry_explained :: "jsval \<Rightarrow> step_explanation option \<Rightarrow> step_explanation" where
  "entry_explained x prev =
     (case prev of
        None \<Rightarrow> \<lparr>explanation = x, isLoading = False, error = JNull, queryType = None\<rparr>
      | Some e \<Rightarrow> e\<lparr>explanation := x, isLoading := False, error := JNull\<rparr>)"

definition entry_failed :: "string \<Rightarrow> step_explanation option \<Rightarrow> step_explanation" where
  "entry_failed msg prev =
     (case prev of
        None \<Rightarrow> \<lparr>explanation = JUndefined, isLoading = False, error = JStr msg, queryType = None\<rparr>
      | Some e \<Rightarrow> e\<lparr>isLoading := False, error := JStr msg\<rparr>)"

definition query_text :: "query \<Rightarrow> string" where
  "query_text q = (case q of Why \<Rightarrow> ''why'' | How \<Rightarrow> ''how'')"

definition explain_request :: "storage \<Rightarrow> tutor \<Rightarrow> int \<Rightarrow> query \<Rightarrow> exn + request" where
  "explain_request ls s stepNumber q =
     bindE (get_prop (solution s) ''original_problem'') (\<lambda>p.
     bindE (get_prop (solution s) ''steps'') (\<lambda>steps.
       Inr \<lparr>url = API_BASE_URL @ ''/explain-step'',
            headers = (''Content-Type'', ''application/json'') # getAuthHeader ls,
            body = JsonBody (JObj
              [(''problem_text'', js_or p (problemInput s)),
               (''all_steps'', steps),
               (''step_number_to_explain'', JNum stepNumber),
               (''query_type'', JStr (query_text q))])\<rparr>))"

definition handleExplainStep_begin :: "int \<Rightarrow> query \<Rightarrow> tutor \<Rightarrow> tutor" where
  "handleExplainStep_begin stepNumber q s =
     s\<lparr>stepExplanations :=
         (stepExplanations s)(stepNumber \<mapsto> entry_loading q (stepExplanations s stepNumber))\<rparr>"

definition handleExplainStep_catch :: "int \<Rightarrow> exn \<Rightarrow> tutor \<Rightarrow> tutor \<times> effect list" where
  "handleExplainStep_catch stepNumber e s =
     (let msg = message_or e ''Failed to get explanation.'' in
      (s\<lparr>stepExplanations :=
          (stepExplanations s)(stepNumber \<mapsto> entry_failed msg (stepExplanations s stepNumber))\<rparr>,
       [Toast (''Error Explaining Step '' @ string_of_int stepNumber) msg True]))"

definition handleExplainStep_resume :: "int \<Rightarrow> fetch_outcome \<Rightarrow> tutor \<Rightarrow> tutor \<times> effect list" where
  "handleExplainStep_resume stepNumber out s =
     (case explain_try out of
        Inr x \<Rightarrow>
          (s\<lparr>stepExplanations :=
              (stepExplanations s)(stepNumber \<mapsto> entry_explained x (stepExplanations s stepNumber))\<rparr>,
           [])
      | Inl e \<Rightarrow> handleExplainStep_catch stepNumber e s)"

definition handleExplainStep :: "server \<Rightarrow> storage \<Rightarrow> int \<Rightarrow> query \<Rightarrow> tutor \<Rightarrow> tutor \<times> effect list" where
  "handleExplainStep srv ls stepNumber q s =
     (if \<not> truthy (solution s) then (s, [])
      else
        (let s1 = handleExplainStep_begin stepNumber q s in
         case explain_request ls s stepNumber q of
           Inl e \<Rightarrow> handleExplainStep_catch stepNumber e s1
         | Inr r \<Rightarrow>
            (let (s2, es) = handleExplainStep_resume stepNumber (srv r) s1
             in (s2, Fetch r # es))))"

text \<open>
  \<^verbatim>\<open>onFileChange\<close> (lines 443 to 477), with the file of the event or \<open>None\<close>, and the
  \<^verbatim>\<open>onloadend\<close> callback of its reader.
\<close>

definition onFileChange :: "js_file option \<Rightarrow> tutor \<Rightarrow> tutor \<times> effect list" where
  "onFileChange fo s =
     (case fo of
        None \<Rightarrow> (resetUploadState s, [])
      | Some f \<Rightarrow>
         if file_type f \<notin> set allowedTypes then
           (resetUploadState s,
            [Toast ''Invalid file type'' ''Please upload JPG, PNG, or PDF.'' True])
         else if file_size f > max_file_size then
           (resetUploadState s, [Toast ''File too large'' ''Max 10MB.'' True])
         else
           (let s1 = s\<lparr>solution := JNull, stepExplanations := Map.empty, solutionError := None,
                        ocrApiError := None, selectedFile := Some f\<rparr>
            in if file_type f \<noteq> ''application/pdf'' then (s1, [ReadAsDataURL f])
               else (s1\<lparr>imagePreviewUrl := None\<rparr>, [])))"

definition onloadend :: "string option \<Rightarrow> tutor \<Rightarrow> tutor" where
  "onloadend result s = s\<lparr>imagePreviewUrl := result\<rparr>"

text \<open>\<^verbatim>\<open>extractQuestion\<close> (lines 495 to 545).\<close>

definition upload_request :: "js_file \<Rightarrow> request" where
  "upload_request f = \<lparr>url = API_BASE_URL @ ''/upload-image'', headers = [], body = FormData f\<rparr>"

definition extractQuestion_begin :: "tutor \<Rightarrow> tutor" where
  "extractQuestion_begin s =
     s\<lparr>loadingOcr := True, problemInput := JStr [], solution := JNull,
       stepExplanations := Map.empty, solutionError := None, ocrApiError := None\<rparr>"

definition extractQuestion_resume :: "fetch_outcome \<Rightarrow> tutor \<Rightarrow> tutor \<times> effect list" where
  "extractQuestion_resume out s =
     (case extract_try out of
        Inr extracted \<Rightarrow>
          ((resetUploadState (s\<lparr>problemInput := extracted\<rparr>))\<lparr>loadingOcr := False\<rparr>,
           [Toast ''Text Extracted''
              (if truthy extracted then ''Review text in the input area below.''
               else ''No text found in image.'') False])
      | Inl e \<Rightarrow>
          (let errorMsg = message_or e ''Failed to connect to the OCR service.'' in
           (s\<lparr>ocrApiError := Some errorMsg, problemInput := JStr [], loadingOcr := False\<rparr>,
            [Toast ''OCR Failed'' errorMsg True])))"

definition extractQuestion :: "server \<Rightarrow> tutor \<Rightarrow> tutor \<times> effect list" where
  "extractQuestion srv s =
     (case selectedFile s of
        None \<Rightarrow> (s, [Toast ''No file selected'' ''Please select an image or PDF.'' True])
      | Some f \<Rightarrow>
         (let s1 = extractQuestion_begin s;
              r = upload_request f;
              (s2, es) = extractQuestion_resume (srv r) s1
          in (s2, Fetch r # es)))"

section \<open>The solver page (Index.tsx)\<close>

record index_page =
  selectedFile :: "js_file option"
  imagePreviewUrl :: "string option"
  ocrText :: jsval
  loadingOcr :: bool
  loadingSolve :: bool
  solveResult :: jsval
  apiError :: "string option"
  fileInput :: "string option"

text \<open>\<^verbatim>\<open>resetState\<close> (lines 53 to 66) and \<^verbatim>\<open>tryAnother\<close> (lines 236 to 238).\<close>

definition resetState :: "bool \<Rightarrow> index_page \<Rightarrow> index_page" where
  "resetState clearFile s =
     (let s1 = (if clearFile
                then s\<lparr>selectedFile := None, imagePreviewUrl := None,
                       fileInput := map_option (\<lambda>v. []) (fileInput s)\<rparr>
                else s)
      in s1\<lparr>ocrText := JStr [], solveResult := JNull, loadingOcr := False,
            loadingSolve := False, apiError := None\<rparr>)"

definition tryAnother :: "index_page \<Rightarrow> index_page" where
  "tryAnother s = resetState True s"

text \<open>\<^verbatim>\<open>onFileChange\<close> (lines 69 to 103) and the callback of its reader.\<close>

definition Index_onFileChange :: "js_file option \<Rightarrow> index_page \<Rightarrow> index_page \<times> effect list" where
  "Index_onFileChange fo s =
     (case fo of
        None \<Rightarrow> (resetState True s, [])
      | Some f \<Rightarrow>
         if file_type f \<notin> set allowedTypes then
           (resetState True s,
            [Toast ''Invalid file type'' ''Please upload a JPG, PNG, or PDF file.'' True])
         else if file_size f > max_file_size then
           (resetState True s,
            [Toast ''File too large'' ''Please upload a file smaller than 10MB.'' True])
         else ((resetState False s)\<lparr>selectedFile := Some f\<rparr>, [ReadAsDataURL f]))"

definition Index_onloadend :: "string option \<Rightarrow> index_page \<Rightarrow> index_page" where
  "Index_onloadend result s = s\<lparr>imagePreviewUrl := result\<rparr>"

text \<open>\<^verbatim>\<open>extractQuestion\<close> (lines 124 to 176).\<close>

definition Index_extractQuestion_begin :: "index_page \<Rightarrow> index_page" where
  "Index_extractQuestion_begin s =
     s\<lparr>loadingOcr := True, ocrText := JStr [], solveResult := JNull, apiError := None\<rparr>"

definition Index_extractQuestion_resume :: "fetch_outcome \<Rightarrow> index_page \<Rightarrow> index_page \<times> effect list" where
  "Index_extractQuestion_resume out s =
     (case extract_try out of
        Inr extracted \<Rightarrow>
          (s\<lparr>ocrText := extracted, loadingOcr := False\<rparr>,
           [Toast ''Text Extracted'' ''Review the text below and edit if needed.'' False])
      | Inl e \<Rightarrow>
          (let errorMsg = message_or e ''Failed to connect to the OCR service.'' in
           (s\<lparr>apiError := Some (''OCR Error: '' @ errorMsg), ocrText := JStr [],
              loadingOcr := False\<rparr>,
            [Toast ''OCR Failed'' errorMsg True])))"

definition Index_extractQuestion :: "server \<Rightarrow> index_page \<Rightarrow> index_page \<times> effect list" where
  "Index_extractQuestion srv s =
     (case selectedFile s of
        None \<Rightarrow>
          (s, [Toast ''No file selected'' ''Please upload an image or PDF file first.'' True])
      | Some f \<Rightarrow>
         (let s1 = Index_extractQuestion_begin s;
              r = upload_request f;
              (s2, es) = Index_extractQuestion_resume (srv r) s1
          in (s2, Fetch r # es)))"

text \<open>\<^verbatim>\<open>solveQuestion\<close> (lines 179 to 233); the question it sends is the trimmed text.\<close>

definition solveQuestion_begin :: "index_page \<Rightarrow> index_page" where
  "solveQuestion_begin s = s\<lparr>loadingSolve := True, solveResult := JNull, apiError := None\<rparr>"

definition solveQuestion_resume :: "fetch_outcome \<Rightarrow> index_page \<Rightarrow> index_page \<times> effect list" where
  "solveQuestion_resume out s =
     (case solve_try out of
        Inr data \<Rightarrow>
          (s\<lparr>solveResult := data, loadingSolve := False\<rparr>,
           [Toast ''Solution Generated'' ''See the results below.'' False])
      | Inl e \<Rightarrow>
          (let errorMsg = message_or e ''Failed to connect to the solver service.'' in
           (s\<lparr>apiError := Some (''Solver Error: '' @ errorMsg), solveResult := JNull,
              loadingSolve := False\<rparr>,
            [Toast ''Solving Failed'' errorMsg True])))"

definition solveQuestion :: "server \<Rightarrow> storage \<Rightarrow> index_page \<Rightarrow> exn + (index_page \<times> effect list)" where
  "solveQuestion srv ls s =
     bindE (blank ''ocrText'' (ocrText s)) (\<lambda>empty.
       if empty then
         Inr (s, [Toast ''No question text''
           ''Please extract or enter a question before solving.'' True])
       else
         (let s1 = solveQuestion_begin s;
              r = solve_request ls (JStr (js_trim (toString (ocrText s))));
              (s2, es) = solveQuestion_resume (srv r) s1
          in Inr (s2, Fetch r # es)))"

section \<open>Initial states and named properties of the screens\<close>

text \<open>The initial values of the \<^verbatim>\<open>useState\<close> cells, with the file input mounted.\<close>

definition initial_tutor :: tutor where
  "initial_tutor =
     \<lparr>problemInput = JStr [], solution = JNull, stepExplanations = Map.empty,
      isLoadingSolution = False, solutionError = None, selectedFile = None,
      imagePreviewUrl = None, loadingOcr = False, ocrApiError = None, fileInput = Some []\<rparr>"

definition initial_index :: index_page where
  "initial_index =
     \<lparr>selectedFile = None, imagePreviewUrl = None, ocrText = JStr [], loadingOcr = False,
      loadingSolve = False, solveResult = JNull, apiError = None, fileInput = Some []\<rparr>"

text \<open>The requests among the effects that go to the processing endpoint.\<close>

definition solve_requests :: "effect list \<Rightarrow> request list" where
  "solve_requests es = filter (\<lambda>r. url r = API_BASE_URL @ ''/solve-text'') (requests es)"


subsection \<open>A run of the tutor screen\<close>

text \<open>
  The solution of \<^verbatim>\<open>2x+5=11\<close> is on the screen and the input holds \<^verbatim>\<open>3x=9\<close>
  (\<open>run_start\<close>). The user asks why for step 1, and the request is sent (\<open>run_why_sent\<close>);
  the user presses Solve, and the solve request is sent (\<open>run_solve_sent\<close>); the response
  with the new solution arrives (\<open>run_solved\<close>); then the response to the question about
  the old step arrives (\<open>run_why_answered\<close>).
\<close>

definition old_solution :: jsval where
  "old_solution =
     JObj [(''original_problem'', JStr ''2x+5=11''),
           (''steps'', JArr [JObj [(''step_number'', JNum 1), (''explanation'', JStr ''Subtract 5'')]]),
           (''final_answer'', JStr ''x=3'')]"

definition new_solution :: jsval where
  "new_solution =
     JObj [(''original_problem'', JStr ''3x=9''),
           (''steps'', JArr [JObj [(''step_number'', JNum 1), (''explanation'', JStr ''Divide by 3'')]]),
           (''final_answer'', JStr ''x=3'')]"

definition run_start :: tutor where
  "run_start = initial_tutor\<lparr>tutor.problemInput := JStr ''3x=9'', tutor.solution := old_solution\<rparr>"

definition run_why_sent :: tutor where
  "run_why_sent = handleExplainStep_begin 1 Why run_start"

definition run_solve_sent :: tutor where
  "run_solve_sent = handleGenerateSolution_begin run_why_sent"

definition run_solved :: tutor where
  "run_solved = fst (handleGenerateSolution_resume (Response 200 (Inr new_solution)) run_solve_sent)"

definition run_why_answered :: tutor where
  "run_why_answered =
     fst (handleExplainStep_resume 1
       (Response 200 (Inr (JObj [(''explanation'', JStr ''Because 5 was added.'')]))) run_solved)"

section \<open>Properties of the JSON parser\<close>

text \<open>
  Every successful call of the parser consumes at least one character, and from twice the
  length of the text plus one onwards a further unit of fuel changes no result. So the
  result of \<open>JSON_parse\<close> never depends on the bound of the recursion.
\<close>

lemma parse_chars_shorter: "parse_chars cs = Some (s, r) \<Longrightarrow> length r < length cs"
proof (induction "length cs" arbitrary: cs s r rule: less_induct)
  case less
  have key: "length r < length cs" if "parse_chars t = Some (s', r)" "length t < length cs" for t s'
    using less.hyps [OF that(2) that(1)] that(2) by simp
  show ?case
  proof (cases cs)
    case Nil
    with less.prems show ?thesis by simp
  next
    case (Cons c cs')
    with less.prems consider "r = cs'"
      | t s' where "parse_chars t = Some (s', r)" "length t < length cs"
      by (auto split: if_splits option.splits list.splits)
    then show ?thesis
    proof cases
      case 1
      with Cons show ?thesis by simp
    next
      case 2
      then show ?thesis by (rule key)
    qed
  qed
qed

lemma skip_ws_length: "length (skip_ws cs) \<le> length cs"
  by (simp add: skip_ws_def length_dropWhile_le)

lemma parse_frac_length: "parse_frac cs = Some (fp, r) \<Longrightarrow> length r \<le> length cs"
  by (cases cs) (auto simp: parse_frac_def length_dropWhile_le le_SucI split: if_splits)

lemma parse_exp_length: "parse_exp cs = Some (ex, r) \<Longrightarrow> length r \<le> length cs"
proof (cases cs)
  case Nil
  then show "parse_exp cs = Some (ex, r) \<Longrightarrow> length r \<le> length cs"
    by (simp add: parse_exp_def)
next
  case (Cons c t)
  have a: "length (dropWhile is_digit t) \<le> length t" by (rule length_dropWhile_le)
  have b: "length (dropWhile is_digit (drop 1 t)) \<le> length t"
    using length_dropWhile_le [of is_digit "drop 1 t"] by simp
  assume "parse_exp cs = Some (ex, r)"
  with Cons a b show "length r \<le> length cs"
    by (auto simp: parse_exp_def Let_def split: if_splits)
qed

lemma parse_number_shorter: "parse_number cs = Some (v, r) \<Longrightarrow> length r < length cs"
proof -
  assume a: "parse_number cs = Some (v, r)"
  define r0 where "r0 = (if take 1 cs = ''-'' then drop 1 cs else cs)"
  from a have ne: "takeWhile is_digit r0 \<noteq> []"
    by (auto simp: parse_number_def Let_def r0_def split: if_splits)
  from a obtain fp r2 ex where f: "parse_frac (dropWhile is_digit r0) = Some (fp, r2)"
    and e: "parse_exp r2 = Some (ex, r)"
    by (auto simp: parse_number_def Let_def r0_def split: if_splits option.splits)
  have "length (takeWhile is_digit r0) + length (dropWhile is_digit r0) = length r0"
    by (metis length_append takeWhile_dropWhile_id)
  with ne have "length (dropWhile is_digit r0) < length r0"
    by (cases "takeWhile is_digit r0") auto
  moreover have "length r0 \<le> length cs" by (simp add: r0_def)
  ultimately show ?thesis
    using parse_frac_length [OF f] parse_exp_length [OF e] by linarith
qed


lemma skip_ws_Cons: "skip_ws x = d # r \<Longrightarrow> length r < length x"
  using skip_ws_length [of x] by simp

lemma take_literal: "take n ts = lit \<Longrightarrow> length lit = n \<Longrightarrow> 0 < n \<Longrightarrow> length (drop n ts) < length ts"
  by (metis diff_less length_drop length_greater_0_conv length_take min.absorb4 min_less_iff_conj not_less_iff_gr_or_eq take_eq_Nil)

lemma parse_value_step_shorter:
  assumes el: "\<And>cs vs r. parse_elems n cs = Some (vs, r) \<Longrightarrow> length r < length cs"
    and me: "\<And>acc cs fs r. parse_members n acc cs = Some (fs, r) \<Longrightarrow> length r < length cs"
    and p: "parse_value (Suc n) cs = Some (v, r)"
  shows "length r < length cs"
proof -
  let ?ts = "skip_ws cs"
  have ts: "length ?ts \<le> length cs" by (rule skip_ws_length)
  have "length r < length ?ts"
  proof (cases "take 4 ?ts = ''null'' \<or> take 4 ?ts = ''true'' \<or> take 5 ?ts = ''false''")
    case True
    with p have "(take 4 ?ts = ''null'' \<or> take 4 ?ts = ''true'') \<and> r = drop 4 ?ts
        \<or> take 5 ?ts = ''false'' \<and> r = drop 5 ?ts"
      by (auto simp: Let_def split: if_splits)
    then show ?thesis
      using take_literal [of 4 ?ts "''null''"] take_literal [of 4 ?ts "''true''"]
        take_literal [of 5 ?ts "''false''"]
      by auto
  next
    case False
    then obtain c r0 where c: "?ts = c # r0"
      using p by (cases ?ts) (auto simp: Let_def)
    from False p c consider
        (str) s where "parse_chars r0 = Some (s, r)"
      | (emp) d where "skip_ws r0 = d # r"
      | (arr) vs where "parse_elems n r0 = Some (vs, r)"
      | (obj) fs where "parse_members n [] r0 = Some (fs, r)"
      | (num) "parse_number ?ts = Some (v, r)"
      by (auto simp: Let_def split: if_splits list.splits)
    then show ?thesis
    proof cases
      case str
      with parse_chars_shorter [OF str] c show ?thesis by simp
    next
      case emp
      with skip_ws_Cons [OF emp] c show ?thesis by simp
    next
      case arr
      with el [OF arr] c show ?thesis by simp
    next
      case obj
      with me [OF obj] c show ?thesis by simp
    next
      case num
      then show ?thesis by (rule parse_number_shorter)
    qed
  qed
  with ts show ?thesis by simp
qed

lemma parse_elems_step_shorter:
  assumes va: "\<And>cs v r. parse_value n cs = Some (v, r) \<Longrightarrow> length r < length cs"
    and el: "\<And>cs vs r. parse_elems n cs = Some (vs, r) \<Longrightarrow> length r < length cs"
    and p: "parse_elems (Suc n) cs = Some (vs, r)"
  shows "length r < length cs"
proof -
  from p obtain v r1 d r2 where v: "parse_value n cs = Some (v, r1)" and d: "skip_ws r1 = d # r2"
    by (auto split: option.splits list.splits)
  from p v d consider (more) ws where "parse_elems n r2 = Some (ws, r)" | (last) "r = r2"
    by (auto split: if_splits)
  then show ?thesis
  proof cases
    case more
    with el [OF more] skip_ws_Cons [OF d] va [OF v] show ?thesis by simp
  next
    case last
    with skip_ws_Cons [OF d] va [OF v] show ?thesis by simp
  qed
qed

lemma parse_members_step_shorter:
  assumes va: "\<And>cs v r. parse_value n cs = Some (v, r) \<Longrightarrow> length r < length cs"
    and me: "\<And>acc cs fs r. parse_members n acc cs = Some (fs, r) \<Longrightarrow> length r < length cs"
    and p: "parse_members (Suc n) acc cs = Some (fs, r)"
  shows "length r < length cs"
proof -
  from p obtain q r0 where q: "skip_ws cs = q # r0"
    by (auto split: list.splits)
  from p q obtain k r1 where k: "parse_chars r0 = Some (k, r1)"
    by (auto split: if_splits option.splits)
  from p q k obtain c r2 where c: "skip_ws r1 = c # r2"
    by (auto split: if_splits list.splits)
  from p q k c obtain v r3 where v: "parse_value n r2 = Some (v, r3)"
    by (auto split: if_splits option.splits)
  from p q k c v obtain d r4 where d: "skip_ws r3 = d # r4"
    by (auto split: if_splits list.splits)
  have chain: "length r4 < length cs"
    using skip_ws_Cons [OF q] parse_chars_shorter [OF k] skip_ws_Cons [OF c] va [OF v]
      skip_ws_Cons [OF d]
    by linarith
  from p q k c v d consider (more) "parse_members n (obj_put acc k v) r4 = Some (fs, r)" | (last) "r = r4"
    by (auto split: if_splits)
  then show ?thesis
  proof cases
    case more
    with me [OF more] chain show ?thesis by simp
  next
    case last
    with chain show ?thesis by simp
  qed
qed

lemma parse_shorter:
  "(\<forall>cs v r. parse_value n cs = Some (v, r) \<longrightarrow> length r < length cs)
   \<and> (\<forall>cs vs r. parse_elems n cs = Some (vs, r) \<longrightarrow> length r < length cs)
   \<and> (\<forall>acc cs fs r. parse_members n acc cs = Some (fs, r) \<longrightarrow> length r < length cs)"
proof (induction n)
  case 0
  show ?case by simp
next
  case (Suc n)
  then show ?case
    using parse_value_step_shorter [of n] parse_elems_step_shorter [of n]
      parse_members_step_shorter [of n]
    by blast
qed


lemma parse_value_shorter: "parse_value n cs = Some (v, r) \<Longrightarrow> length r < length cs"
  using parse_shorter [of n] by blast

lemma parse_value_step_stable:
  assumes el: "\<And>cs. 2 * length cs + 2 \<le> n \<Longrightarrow> parse_elems (Suc n) cs = parse_elems n cs"
    and me: "\<And>acc cs. 2 * length cs + 2 \<le> n \<Longrightarrow> parse_members (Suc n) acc cs = parse_members n acc cs"
    and b: "2 * length cs + 1 \<le> Suc n"
  shows "parse_value (Suc (Suc n)) cs = parse_value (Suc n) cs"
proof -
  have inner: "parse_elems (Suc n) r0 = parse_elems n r0
      \<and> parse_members (Suc n) [] r0 = parse_members n [] r0" if "skip_ws cs = c # r0" for c r0
  proof -
    from skip_ws_Cons [OF that] b have h: "2 * length r0 + 2 \<le> n" by simp
    have "parse_elems (Suc n) r0 = parse_elems n r0" using h by (rule el)
    moreover have "parse_members (Suc n) [] r0 = parse_members n [] r0" using h by (rule me)
    ultimately show ?thesis by (rule conjI)
  qed
  show ?thesis
  proof (cases "skip_ws cs")
    case Nil
    then show ?thesis by (simp add: Let_def)
  next
    case (Cons c r0)
    note e = inner [OF Cons, THEN conjunct1] and m = inner [OF Cons, THEN conjunct2]
    show ?thesis
      by (simp add: Let_def Cons e m del: parse_elems.simps parse_members.simps
            split: list.split)
  qed
qed

lemma parse_elems_step_stable:
  assumes va: "\<And>cs. 2 * length cs + 1 \<le> n \<Longrightarrow> parse_value (Suc n) cs = parse_value n cs"
    and el: "\<And>cs. 2 * length cs + 2 \<le> n \<Longrightarrow> parse_elems (Suc n) cs = parse_elems n cs"
    and b: "2 * length cs + 2 \<le> Suc n"
  shows "parse_elems (Suc (Suc n)) cs = parse_elems (Suc n) cs"
proof -
  have v: "parse_value (Suc n) cs = parse_value n cs" by (rule va) (use b in simp)
  show ?thesis
  proof (cases "parse_value n cs")
    case None
    with v show ?thesis by simp
  next
    case (Some p)
    obtain w r1 where p: "p = (w, r1)" by (cases p)
    show ?thesis
    proof (cases "skip_ws r1")
      case Nil
      with v Some p show ?thesis by simp
    next
      case (Cons d r2)
      from parse_value_shorter [of n cs w r1] Some p skip_ws_Cons [OF Cons] b
      have "2 * length r2 + 2 \<le> n" by simp
      then have "parse_elems (Suc n) r2 = parse_elems n r2" by (rule el)
      with v Some p Cons show ?thesis by simp
    qed
  qed
qed

lemma parse_members_step_stable:
  assumes va: "\<And>cs. 2 * length cs + 1 \<le> n \<Longrightarrow> parse_value (Suc n) cs = parse_value n cs"
    and me: "\<And>acc cs. 2 * length cs + 2 \<le> n \<Longrightarrow> parse_members (Suc n) acc cs = parse_members n acc cs"
    and b: "2 * length cs + 2 \<le> Suc n"
  shows "parse_members (Suc (Suc n)) acc cs = parse_members (Suc n) acc cs"
proof (cases "skip_ws cs")
  case Nil
  then show ?thesis by simp
next
  case q: (Cons q r0)
  show ?thesis
  proof (cases "parse_chars r0")
    case None
    with q show ?thesis by simp
  next
    case (Some kp)
    obtain k r1 where kp: "kp = (k, r1)" by (cases kp)
    show ?thesis
    proof (cases "skip_ws r1")
      case Nil
      with q Some kp show ?thesis by simp
    next
      case c: (Cons c r2)
      have l2: "length r2 + 3 \<le> length cs"
        using skip_ws_Cons [OF q] parse_chars_shorter [of r0 k r1] Some kp skip_ws_Cons [OF c]
        by simp
      have v: "parse_value (Suc n) r2 = parse_value n r2" by (rule va) (use l2 b in simp)
      show ?thesis
      proof (cases "parse_value n r2")
        case None
        with q Some kp c v show ?thesis by simp
      next
        case vp: (Some vp)
        obtain w r3 where p: "vp = (w, r3)" by (cases vp)
        show ?thesis
        proof (cases "skip_ws r3")
          case Nil
          with q Some kp c v vp p show ?thesis by simp
        next
          case d: (Cons d r4)
          from parse_value_shorter [of n r2 w r3] vp p skip_ws_Cons [OF d] l2 b
          have "2 * length r4 + 2 \<le> n" by simp
          then have "parse_members (Suc n) (obj_put acc k w) r4 = parse_members n (obj_put acc k w) r4"
            by (rule me)
          with q Some kp c v vp p d show ?thesis by simp
        qed
      qed
    qed
  qed
qed

lemma parse_stable:
  "(\<forall>cs. 2 * length cs + 1 \<le> n \<longrightarrow> parse_value (Suc n) cs = parse_value n cs)
   \<and> (\<forall>cs. 2 * length cs + 2 \<le> n \<longrightarrow> parse_elems (Suc n) cs = parse_elems n cs)
   \<and> (\<forall>acc cs. 2 * length cs + 2 \<le> n \<longrightarrow> parse_members (Suc n) acc cs = parse_members n acc cs)"
proof (induction n)
  case 0
  show ?case by simp
next
  case (Suc n)
  then show ?case
    using parse_value_step_stable [of n] parse_elems_step_stable [of n]
      parse_members_step_stable [of n]
    by blast
qed

lemma parse_value_more_fuel:
  "2 * length cs + 1 \<le> n \<Longrightarrow> parse_value (n + k) cs = parse_value n cs"
proof (induction k)
  case 0
  show ?case by simp
next
  case (Suc k)
  then have "2 * length cs + 1 \<le> n + k" by simp
  with parse_stable [of "n + k"] have "parse_value (Suc (n + k)) cs = parse_value (n + k) cs"
    by blast
  with Suc show ?case by simp
qed

text \<open>More fuel than \<open>JSON_parse\<close> gives never changes the result of the parser.\<close>

lemma JSON_parse_fuel:
  assumes "2 * length s + 2 \<le> n"
  shows "parse_value n s = parse_value (2 * length s + 2) s"
proof -
  from assms obtain k where "n = (2 * length s + 2) + k"
    using le_Suc_ex by blast
  then show ?thesis
    using parse_value_more_fuel [of s "2 * length s + 2" k] by simp
qed

section \<open>Verified properties of the session manager\<close>

lemma removeItem_apply: "removeItem ls k k' = (if k' = k then None else ls k')"
  by (simp add: removeItem_def)

lemma setItem_apply: "setItem ls k v k' = (if k' = k then Some (toString v) else ls k')"
  by (simp add: setItem_def)

lemma clear_session_keys_absent: "keys_all_absent (clear_session_keys ls)"
  by (simp add: keys_all_absent_def clear_session_keys_def removeItem_apply)


lemma get_prop_cases:
  "(\<forall>k. \<exists>e. get_prop v k = Inl e) \<or> (\<forall>k. \<exists>w. get_prop v k = Inr w)"
  by (cases v) (auto split: option.splits)



lemma login_try_Inr_truthy:
  "login_try out = Inr (u, t) \<Longrightarrow> truthy t \<and> (\<exists>fs. u = JObj fs)"
  by (cases out) (auto simp: login_try_def bindE_def split: sum.splits if_splits)

lemma guard_iff:
  "(getItem ls ''isLoggedIn'' = JStr ''true'' \<and> truthy (getItem ls ''user'') \<and> truthy (getItem ls ''token''))
   = stored_complete ls"
  by (auto simp: getItem_def stored_complete_def split: option.splits)

lemma initialize_complete:
  "stored_complete ls \<Longrightarrow>
   initialize ls s =
     (case stored_user_parse ls of
        Some u \<Rightarrow> (s\<lparr>user := u, token := getItem ls ''token'', isLoggedIn := True, session.isLoading := False\<rparr>, ls)
      | None \<Rightarrow> (s\<lparr>user := JNull, token := JNull, isLoggedIn := False, session.isLoading := False\<rparr>,
                  clear_session_keys ls))"
  by (auto simp: initialize_def Let_def guard_iff stored_user_parse_def clear_session_keys_def
        stored_complete_def getItem_def split: option.splits)

lemma initialize_incomplete: "\<not> stored_complete ls \<Longrightarrow> initialize ls s = (s\<lparr>session.isLoading := False\<rparr>, ls)"
  by (simp add: initialize_def Let_def guard_iff)

lemma JSON_parse_null: "JSON_parse ''null'' = Some JNull"
  by code_simp

lemma JSON_parse_empty: "JSON_parse [] = None"
  by code_simp

lemma JSON_parse_empty_object: "JSON_parse ''{}'' = Some (JObj [])"
  by code_simp

text \<open>
  Claim C1, as stated: whenever \<open>isLoggedIn\<close> is true, \<open>user\<close> and \<open>token\<close> are not null,
  and initialize, login and logout all preserve this. It fails for initialize: with the
  stored user text \<^verbatim>\<open>null\<close>, a stored token and \<^verbatim>\<open>isLoggedIn\<close> stored as \<^verbatim>\<open>"true"\<close>,
  \<^verbatim>\<open>JSON.parse\<close> succeeds with \<^verbatim>\<open>null\<close>, nothing is thrown, and the session is marked
  logged in with a null user.
\<close>

theorem null_user_counterexample:
  "session_inv initial_session \<and>
   \<not> session_inv (fst (initialize
        [''user'' \<mapsto> ''null'', ''token'' \<mapsto> ''abc'', ''isLoggedIn'' \<mapsto> ''true''] initial_session))"
  by (simp add: session_inv_def initial_session_def initialize_def Let_def getItem_def
        JSON_parse_null)

text \<open>
  Claim C1, amended: login and logout always end in a state where \<open>isLoggedIn\<close> implies
  that \<open>user\<close> and \<open>token\<close> are not null; initialize preserves this whenever the stored user
  text does not parse to \<^verbatim>\<open>null\<close>; and each of the three operations leaves the three
  persisted keys untouched, or all present, or all absent.
\<close>

theorem session_invariant:
  "session_inv (fst (snd (login srv em pw (s, ls))))
   \<and> session_inv (fst (logout (s, ls)))
   \<and> (stored_user_parse ls \<noteq> Some JNull \<and> session_inv s \<longrightarrow> session_inv (fst (initialize ls s)))
   \<and> group_step ls (snd (snd (login srv em pw (s, ls))))
   \<and> group_step ls (fst (snd (logout (s, ls))))
   \<and> group_step ls (snd (initialize ls s))"
proof -
  have login_inv: "session_inv (fst (snd (login srv em pw (s, ls))))"
  proof (cases "login_try (srv (login_request em pw))")
    case (Inl e)
    then show ?thesis by (simp add: login_def session_inv_def)
  next
    case (Inr p)
    obtain u t where p: "p = (u, t)" by (cases p)
    with Inr login_try_Inr_truthy [of "srv (login_request em pw)" u t]
    show ?thesis by (auto simp: login_def session_inv_def)
  qed
  have logout_inv: "session_inv (fst (logout (s, ls)))"
    by (simp add: logout_def session_inv_def)
  have init_inv: "stored_user_parse ls \<noteq> Some JNull \<and> session_inv s \<longrightarrow> session_inv (fst (initialize ls s))"
  proof (cases "stored_complete ls")
    case True
    then show ?thesis
      by (auto simp: initialize_complete session_inv_def getItem_def stored_complete_def
            split: option.splits)
  next
    case False
    then show ?thesis by (simp add: initialize_incomplete session_inv_def)
  qed
  have login_grp: "group_step ls (snd (snd (login srv em pw (s, ls))))"
    by (cases "login_try (srv (login_request em pw))")
       (auto simp: login_def group_step_def clear_session_keys_absent keys_all_present_def
          setItem_apply)
  have logout_grp: "group_step ls (fst (snd (logout (s, ls))))"
    by (simp add: logout_def group_step_def keys_all_absent_def clear_session_keys_def
          removeItem_apply)
  have init_grp: "group_step ls (snd (initialize ls s))"
  proof (cases "stored_complete ls")
    case True
    then show ?thesis
      by (auto simp: initialize_complete group_step_def keys_untouched_def
            clear_session_keys_absent split: option.splits)
  next
    case False
    then show ?thesis by (simp add: initialize_incomplete group_step_def keys_untouched_def)
  qed
  from login_inv logout_inv init_inv login_grp logout_grp init_grp show ?thesis by blast
qed

theorem session_invariant_witness:
  "stored_user_parse [''user'' \<mapsto> ''{}'', ''token'' \<mapsto> ''abc'', ''isLoggedIn'' \<mapsto> ''true''] \<noteq> Some JNull
   \<and> session_inv initial_session
   \<and> session_inv (fst (initialize
        [''user'' \<mapsto> ''{}'', ''token'' \<mapsto> ''abc'', ''isLoggedIn'' \<mapsto> ''true''] initial_session))
   \<and> isLoggedIn (fst (initialize
        [''user'' \<mapsto> ''{}'', ''token'' \<mapsto> ''abc'', ''isLoggedIn'' \<mapsto> ''true''] initial_session))"
  using session_invariant [of "\<lambda>r. Rejected []" "[]" "[]" initial_session
      "[''user'' \<mapsto> ''{}'', ''token'' \<mapsto> ''abc'', ''isLoggedIn'' \<mapsto> ''true'']"]
  by (simp add: stored_user_parse_def JSON_parse_empty_object session_inv_def initial_session_def
        initialize_def Let_def getItem_def)

text \<open>
  Claim C2, as stated: whenever initialization does not find all three keys present and
  parsing, it clears all persisted keys. It fails when a key is missing or empty: the
  effect is guarded by the presence of all three, and outside the guard it touches
  nothing. A storage that holds only a token keeps it; and with \<^verbatim>\<open>isLoggedIn\<close> stored as
  \<^verbatim>\<open>"true"\<close>, a token, and the empty text as user (which does not parse), nothing is removed.
\<close>

theorem initialize_partial_counterexample:
  "\<not> keys_all_absent (snd (initialize [''token'' \<mapsto> ''abc''] initial_session))
   \<and> stored_user_parse [''user'' \<mapsto> [], ''token'' \<mapsto> ''abc'', ''isLoggedIn'' \<mapsto> ''true''] = None
   \<and> \<not> keys_all_absent (snd (initialize
        [''user'' \<mapsto> [], ''token'' \<mapsto> ''abc'', ''isLoggedIn'' \<mapsto> ''true''] initial_session))"
  by (simp add: keys_all_absent_def initialize_def Let_def getItem_def stored_user_parse_def
        JSON_parse_empty)

text \<open>
  Claim C2, amended: for every starting content of the storage, if initialization does not
  find all three keys present, not empty, with \<^verbatim>\<open>isLoggedIn\<close> equal to \<^verbatim>\<open>"true"\<close> and a
  user text that parses, it ends with \<open>isLoggedIn\<close> false, \<open>user\<close> null and \<open>token\<close> null.
  When the three keys are present and not empty, \<^verbatim>\<open>isLoggedIn\<close> is \<^verbatim>\<open>"true"\<close> and the
  user text does not parse, all three persisted keys are removed; when a key is missing or
  empty, the storage is left as it was.
\<close>

theorem initialize_not_restored:
  assumes "\<not> (stored_complete ls \<and> stored_user_parse ls \<noteq> None)"
  shows "logged_out (fst (initialize ls initial_session))
       \<and> session.isLoading (fst (initialize ls initial_session)) = False
       \<and> snd (initialize ls initial_session) = (if stored_complete ls then clear_session_keys ls else ls)
       \<and> (if stored_complete ls then keys_all_absent (snd (initialize ls initial_session))
          else keys_untouched ls (snd (initialize ls initial_session)))"
proof (cases "stored_complete ls")
  case True
  with assms have "stored_user_parse ls = None" by simp
  with True show ?thesis
    by (simp add: initialize_complete logged_out_def clear_session_keys_absent)
next
  case False
  then show ?thesis
    by (simp add: initialize_incomplete logged_out_def initial_session_def keys_untouched_def)
qed

theorem initialize_not_restored_witness:
  "\<not> (stored_complete [''user'' \<mapsto> ''{oops'', ''token'' \<mapsto> ''abc'', ''isLoggedIn'' \<mapsto> ''true'']
      \<and> stored_user_parse [''user'' \<mapsto> ''{oops'', ''token'' \<mapsto> ''abc'', ''isLoggedIn'' \<mapsto> ''true''] \<noteq> None)
   \<and> stored_complete [''user'' \<mapsto> ''{oops'', ''token'' \<mapsto> ''abc'', ''isLoggedIn'' \<mapsto> ''true'']
   \<and> logged_out (fst (initialize
        [''user'' \<mapsto> ''{oops'', ''token'' \<mapsto> ''abc'', ''isLoggedIn'' \<mapsto> ''true''] initial_session))
   \<and> keys_all_absent (snd (initialize
        [''user'' \<mapsto> ''{oops'', ''token'' \<mapsto> ''abc'', ''isLoggedIn'' \<mapsto> ''true''] initial_session))"
proof -
  have p: "JSON_parse ''{oops'' = None" by code_simp
  have h: "\<not> (stored_complete [''user'' \<mapsto> ''{oops'', ''token'' \<mapsto> ''abc'', ''isLoggedIn'' \<mapsto> ''true'']
      \<and> stored_user_parse [''user'' \<mapsto> ''{oops'', ''token'' \<mapsto> ''abc'', ''isLoggedIn'' \<mapsto> ''true''] \<noteq> None)"
    by (simp add: stored_user_parse_def p)
  have c: "stored_complete [''user'' \<mapsto> ''{oops'', ''token'' \<mapsto> ''abc'', ''isLoggedIn'' \<mapsto> ''true'']"
    by (simp add: stored_complete_def)
  from initialize_not_restored [OF h] h c show ?thesis by (simp add: clear_session_keys_absent)
qed



section \<open>Verified properties of the screens\<close>

lemma allowed_iff: "(t \<in> set allowedTypes) = (t \<in> {''image/jpeg'', ''image/png'', ''application/pdf''})"
  by (simp add: allowedTypes_def)

lemma extractQuestion_no_file:
  "tutor.selectedFile s = None \<Longrightarrow> requests (snd (extractQuestion srv s)) = []"
  by (simp add: extractQuestion_def)

lemma extractQuestion_resume_requests: "requests (snd (extractQuestion_resume out s)) = []"
  by (simp add: extractQuestion_resume_def Let_def split: sum.splits)

lemma extractQuestion_file:
  "tutor.selectedFile s = Some f \<Longrightarrow> requests (snd (extractQuestion srv s)) = [upload_request f]"
  by (simp add: extractQuestion_def Let_def extractQuestion_resume_requests split: prod.splits)
     (metis extractQuestion_resume_requests snd_conv)

lemma Index_extractQuestion_no_file:
  "index_page.selectedFile s = None \<Longrightarrow> requests (snd (Index_extractQuestion srv s)) = []"
  by (simp add: Index_extractQuestion_def)

lemma Index_extractQuestion_resume_requests: "requests (snd (Index_extractQuestion_resume out s)) = []"
  by (simp add: Index_extractQuestion_resume_def Let_def split: sum.splits)

lemma Index_extractQuestion_file:
  "index_page.selectedFile s = Some f \<Longrightarrow> requests (snd (Index_extractQuestion srv s)) = [upload_request f]"
  by (simp add: Index_extractQuestion_def Let_def split: prod.splits)
     (metis Index_extractQuestion_resume_requests snd_conv)

lemma onFileChange_bad:
  "file_type f \<notin> set allowedTypes \<Longrightarrow>
   onFileChange (Some f) s =
     (resetUploadState s, [Toast ''Invalid file type'' ''Please upload JPG, PNG, or PDF.'' True])"
  by (simp add: onFileChange_def)

lemma onFileChange_big:
  "file_type f \<in> set allowedTypes \<Longrightarrow> file_size f > max_file_size \<Longrightarrow>
   onFileChange (Some f) s = (resetUploadState s, [Toast ''File too large'' ''Max 10MB.'' True])"
  by (simp add: onFileChange_def)

lemma onFileChange_ok:
  "file_type f \<in> set allowedTypes \<Longrightarrow> \<not> file_size f > max_file_size \<Longrightarrow>
   tutor.selectedFile (fst (onFileChange (Some f) s)) = Some f
   \<and> requests (snd (onFileChange (Some f) s)) = []"
  by (simp add: onFileChange_def Let_def)

lemma Index_onFileChange_bad:
  "file_type f \<notin> set allowedTypes \<Longrightarrow>
   Index_onFileChange (Some f) p =
     (resetState True p,
      [Toast ''Invalid file type'' ''Please upload a JPG, PNG, or PDF file.'' True])"
  by (simp add: Index_onFileChange_def)

lemma Index_onFileChange_big:
  "file_type f \<in> set allowedTypes \<Longrightarrow> file_size f > max_file_size \<Longrightarrow>
   Index_onFileChange (Some f) p =
     (resetState True p,
      [Toast ''File too large'' ''Please upload a file smaller than 10MB.'' True])"
  by (simp add: Index_onFileChange_def)

lemma Index_onFileChange_ok:
  "file_type f \<in> set allowedTypes \<Longrightarrow> \<not> file_size f > max_file_size \<Longrightarrow>
   index_page.selectedFile (fst (Index_onFileChange (Some f) p)) = Some f
   \<and> requests (snd (Index_onFileChange (Some f) p)) = []"
  by (simp add: Index_onFileChange_def)

lemma resetUploadState_no_file: "tutor.selectedFile (resetUploadState s) = None"
  by (simp add: resetUploadState_def)

lemma resetState_no_file: "index_page.selectedFile (resetState True p) = None"
  by (simp add: resetState_def)

text \<open>
  Claim C4: a file whose type is outside image/jpeg, image/png, application/pdf, or whose
  size exceeds 10MB, is rejected on both screens with a toast of its own (invalid type, or
  too large), no request is sent for it, and an extraction started afterwards sends none,
  because no file is selected; a file of an allowed type and of size at most 10MB is
  selected, and the extraction that follows sends exactly one request, the upload of it.
\<close>

theorem file_validation:
  "requests (snd (onFileChange (Some f) s)) = []
   \<and> requests (snd (Index_onFileChange (Some f) p)) = []
   \<and> (if file_type f \<notin> {''image/jpeg'', ''image/png'', ''application/pdf''} then
        snd (onFileChange (Some f) s) =
          [Toast ''Invalid file type'' ''Please upload JPG, PNG, or PDF.'' True]
        \<and> snd (Index_onFileChange (Some f) p) =
          [Toast ''Invalid file type'' ''Please upload a JPG, PNG, or PDF file.'' True]
        \<and> tutor.selectedFile (fst (onFileChange (Some f) s)) = None
        \<and> index_page.selectedFile (fst (Index_onFileChange (Some f) p)) = None
        \<and> requests (snd (extractQuestion srv (fst (onFileChange (Some f) s)))) = []
        \<and> requests (snd (Index_extractQuestion srv (fst (Index_onFileChange (Some f) p)))) = []
      else if file_size f > 10 * 1024 * 1024 then
        snd (onFileChange (Some f) s) = [Toast ''File too large'' ''Max 10MB.'' True]
        \<and> snd (Index_onFileChange (Some f) p) =
          [Toast ''File too large'' ''Please upload a file smaller than 10MB.'' True]
        \<and> tutor.selectedFile (fst (onFileChange (Some f) s)) = None
        \<and> index_page.selectedFile (fst (Index_onFileChange (Some f) p)) = None
        \<and> requests (snd (extractQuestion srv (fst (onFileChange (Some f) s)))) = []
        \<and> requests (snd (Index_extractQuestion srv (fst (Index_onFileChange (Some f) p)))) = []
      else
        tutor.selectedFile (fst (onFileChange (Some f) s)) = Some f
        \<and> index_page.selectedFile (fst (Index_onFileChange (Some f) p)) = Some f
        \<and> requests (snd (extractQuestion srv (fst (onFileChange (Some f) s)))) = [upload_request f]
        \<and> requests (snd (Index_extractQuestion srv (fst (Index_onFileChange (Some f) p))))
            = [upload_request f])"
proof -
  let ?T = "{''image/jpeg'', ''image/png'', ''application/pdf''}"
  consider (bad) "file_type f \<notin> set allowedTypes"
    | (big) "file_type f \<in> set allowedTypes" "file_size f > max_file_size"
    | (ok) "file_type f \<in> set allowedTypes" "\<not> file_size f > max_file_size"
    by blast
  then show ?thesis
  proof cases
    case bad
    then have c: "file_type f \<notin> ?T" by (simp add: allowed_iff)
    show ?thesis
      unfolding onFileChange_bad [OF bad] Index_onFileChange_bad [OF bad] if_P [OF c]
      by (simp add: extractQuestion_no_file Index_extractQuestion_no_file
            resetUploadState_no_file resetState_no_file)
  next
    case big
    then have c: "\<not> file_type f \<notin> ?T" by (simp add: allowed_iff)
    from big have d: "file_size f > 10 * 1024 * 1024" by (simp add: max_file_size_def)
    show ?thesis
      unfolding onFileChange_big [OF big] Index_onFileChange_big [OF big] if_not_P [OF c] if_P [OF d]
      by (simp add: extractQuestion_no_file Index_extractQuestion_no_file
            resetUploadState_no_file resetState_no_file)
  next
    case ok
    then have c: "\<not> file_type f \<notin> ?T" by (simp add: allowed_iff)
    from ok have d: "\<not> file_size f > 10 * 1024 * 1024" by (simp add: max_file_size_def)
    note t = onFileChange_ok [OF ok, of s] and i = Index_onFileChange_ok [OF ok, of p]
    show ?thesis
      unfolding if_not_P [OF c] if_not_P [OF d]
      using t i extractQuestion_file [of "fst (onFileChange (Some f) s)" f srv]
        Index_extractQuestion_file [of "fst (Index_onFileChange (Some f) p)" f srv]
      by simp
  qed
qed

theorem file_validation_witness:
  "requests (snd (extractQuestion (\<lambda>r. Rejected [])
      (fst (onFileChange (Some (File ''big.jpg'' ''image/jpeg'' (12 * 1024 * 1024))) initial_tutor)))) = []
   \<and> snd (onFileChange (Some (File ''big.jpg'' ''image/jpeg'' (12 * 1024 * 1024))) initial_tutor)
       = [Toast ''File too large'' ''Max 10MB.'' True]
   \<and> requests (snd (extractQuestion (\<lambda>r. Rejected [])
      (fst (onFileChange (Some (File ''ok.jpg'' ''image/jpeg'' (2 * 1024 * 1024))) initial_tutor))))
       = [upload_request (File ''ok.jpg'' ''image/jpeg'' (2 * 1024 * 1024))]
   \<and> snd (onFileChange (Some (File ''notes.txt'' ''text/plain'' 10)) initial_tutor)
       = [Toast ''Invalid file type'' ''Please upload JPG, PNG, or PDF.'' True]"
  using file_validation [of "File ''big.jpg'' ''image/jpeg'' (12 * 1024 * 1024)" initial_tutor
      initial_index "\<lambda>r. Rejected []"]
    file_validation [of "File ''ok.jpg'' ''image/jpeg'' (2 * 1024 * 1024)" initial_tutor
      initial_index "\<lambda>r. Rejected []"]
    file_validation [of "File ''notes.txt'' ''text/plain'' 10" initial_tutor
      initial_index "\<lambda>r. Rejected []"]
  by simp

lemma not_ok_422: "\<not> response_ok 422"
  by (simp add: response_ok_def)

text \<open>
  Claim C5, as stated: every failed request takes its message from \<^verbatim>\<open>detail\<close> first, then
  from \<^verbatim>\<open>error\<close>. It fails for the solve request: with status 422 and a body that carries
  both fields, \<^verbatim>\<open>handleGenerateSolution\<close> reports the \<^verbatim>\<open>error\<close> field.
\<close>

theorem solve_prefers_error_counterexample:
  "solve_try (Response 422 (Inr (JObj [(''detail'', JStr ''D''), (''error'', JStr ''E'')])))
     = Inl (Error ''E'')
   \<and> tutor.solutionError (fst (handleGenerateSolution_resume
        (Response 422 (Inr (JObj [(''detail'', JStr ''D''), (''error'', JStr ''E'')]))) initial_tutor))
     = Some ''Solver Error: E''"
  by (simp add: solve_try_def not_ok_422 bindE_def handleGenerateSolution_resume_def
        message_or_def Let_def)

text \<open>
  Claim C5, amended: for a response whose status is not ok and whose body is a JSON value
  other than \<^verbatim>\<open>null\<close> (so that its fields can be read), login and extraction take the
  message from \<^verbatim>\<open>detail\<close>, else from \<^verbatim>\<open>error\<close>, else a generic message with the status;
  the solve request and the explain-step request take it from \<^verbatim>\<open>error\<close> first, else from
  \<^verbatim>\<open>detail\<close> (written as JSON by the solve request), else the generic message with the
  status. For an ok response that carries an \<^verbatim>\<open>error\<close> field, the solve request and the
  explain-step request take the message from that field.
\<close>

theorem error_message_preference:
  assumes "get_prop data ''detail'' = Inr d" and "get_prop data ''error'' = Inr e"
  shows "(\<not> response_ok status \<longrightarrow>
            login_try (Response status (Inr data)) =
              Inl (Error (toString (js_or d (js_or e
                (JStr (''Login failed (status '' @ string_of_nat status @ '')''))))))
          \<and> extract_try (Response status (Inr data)) =
              Inl (Error (toString (js_or d (js_or e
                (JStr (''HTTP error! status: '' @ string_of_nat status))))))
          \<and> solve_try (Response status (Inr data)) =
              Inl (Error (toString (js_or e (js_or (if truthy d then JSON_stringify d else JNull)
                (JStr (''HTTP error! status: '' @ string_of_nat status))))))
          \<and> explain_try (Response status (Inr data)) =
              Inl (Error (toString (js_or e (js_or d
                (JStr (''HTTP error! status: '' @ string_of_nat status)))))))
       \<and> (response_ok status \<and> truthy e \<longrightarrow>
            solve_try (Response status (Inr data)) = Inl (Error (toString e))
          \<and> explain_try (Response status (Inr data)) = Inl (Error (toString e)))"
  using assms
  by (simp add: login_try_def extract_try_def solve_try_def explain_try_def bindE_def js_or_def)

theorem error_message_preference_witness:
  "get_prop (JObj [(''detail'', JStr ''Bad credentials'')]) ''detail'' = Inr (JStr ''Bad credentials'')
   \<and> get_prop (JObj [(''detail'', JStr ''Bad credentials'')]) ''error'' = Inr JUndefined
   \<and> \<not> response_ok 401
   \<and> login_try (Response 401 (Inr (JObj [(''detail'', JStr ''Bad credentials'')])))
       = Inl (Error ''Bad credentials'')
   \<and> explain_try (Response 401 (Inr (JObj [(''detail'', JStr ''Bad credentials'')])))
       = Inl (Error ''Bad credentials'')
   \<and> get_prop (JObj [(''error'', JStr ''Model unavailable'')]) ''detail'' = Inr JUndefined
   \<and> get_prop (JObj [(''error'', JStr ''Model unavailable'')]) ''error'' = Inr (JStr ''Model unavailable'')
   \<and> response_ok 200 \<and> truthy (JStr ''Model unavailable'')
   \<and> solve_try (Response 200 (Inr (JObj [(''error'', JStr ''Model unavailable'')])))
       = Inl (Error ''Model unavailable'')"
proof -
  have d: "get_prop (JObj [(''detail'', JStr ''Bad credentials'')]) ''detail'' = Inr (JStr ''Bad credentials'')"
    by simp
  have e: "get_prop (JObj [(''detail'', JStr ''Bad credentials'')]) ''error'' = Inr JUndefined"
    by simp
  have n: "\<not> response_ok 401" by (simp add: response_ok_def)
  have d': "get_prop (JObj [(''error'', JStr ''Model unavailable'')]) ''detail'' = Inr JUndefined"
    by simp
  have e': "get_prop (JObj [(''error'', JStr ''Model unavailable'')]) ''error'' = Inr (JStr ''Model unavailable'')"
    by simp
  have k: "response_ok 200" by (simp add: response_ok_def)
  from error_message_preference [OF d e, of 401] error_message_preference [OF d' e', of 200]
    d e n d' e' k
  show ?thesis by (simp add: js_or_def)
qed

lemma js_trim_example: "js_trim ''2x+5=11'' = ''2x+5=11''"
  by code_simp

lemma handleGenerateSolution_resume_requests:
  "requests (snd (handleGenerateSolution_resume out s)) = []"
  by (simp add: handleGenerateSolution_resume_def Let_def split: sum.splits)

lemma handleGenerateSolution_resume_solution:
  "tutor.solution (fst (handleGenerateSolution_resume out s)) =
     (case solve_try out of Inr data \<Rightarrow> data | Inl e \<Rightarrow> JNull)"
  by (simp add: handleGenerateSolution_resume_def Let_def split: sum.splits)

lemma handleGenerateSolution_resume_cache:
  "tutor.stepExplanations (fst (handleGenerateSolution_resume out s)) = tutor.stepExplanations s"
  by (simp add: handleGenerateSolution_resume_def Let_def split: sum.splits)

lemma handleGenerateSolution_begin_forgets:
  "handleGenerateSolution_begin (s\<lparr>tutor.solution := old, tutor.stepExplanations := cache\<rparr>)
     = handleGenerateSolution_begin s"
  by (simp add: handleGenerateSolution_begin_def)

lemma handleGenerateSolution_nonblank:
  "blank ''problemInput'' (tutor.problemInput s) = Inr False \<Longrightarrow>
   handleGenerateSolution srv ls s =
     Inr (fst (handleGenerateSolution_resume (srv (solve_request ls (tutor.problemInput s)))
            (handleGenerateSolution_begin s)),
          Fetch (solve_request ls (tutor.problemInput s)) #
          snd (handleGenerateSolution_resume (srv (solve_request ls (tutor.problemInput s)))
            (handleGenerateSolution_begin s)))"
  by (simp add: handleGenerateSolution_def bindE_def Let_def split: prod.splits)

text \<open>
  What the solve handler does by itself, when the problem text is not blank: the previous
  solution and every entry of the cache of step explanations are cleared when the request
  begins; run to its end with nothing in between, it leaves the solution of the response,
  or null after a failure, and an empty cache; and its outcome is the same whatever the
  previous solution and the previous cache were.
\<close>

lemma solve_replaces_result:
  assumes "blank ''problemInput'' (tutor.problemInput s) = Inr False"
  shows "tutor.solution (handleGenerateSolution_begin s) = JNull
       \<and> tutor.stepExplanations (handleGenerateSolution_begin s) = Map.empty
       \<and> (\<exists>s2 es. handleGenerateSolution srv ls s = Inr (s2, es)
            \<and> tutor.solution s2 =
                (case solve_try (srv (solve_request ls (tutor.problemInput s))) of
                   Inr data \<Rightarrow> data | Inl e \<Rightarrow> JNull)
            \<and> tutor.stepExplanations s2 = Map.empty
            \<and> requests es = [solve_request ls (tutor.problemInput s)])
       \<and> handleGenerateSolution srv ls (s\<lparr>tutor.solution := old, tutor.stepExplanations := cache\<rparr>)
           = handleGenerateSolution srv ls s"
proof -
  have b: "tutor.solution (handleGenerateSolution_begin s) = JNull
       \<and> tutor.stepExplanations (handleGenerateSolution_begin s) = Map.empty"
    by (simp add: handleGenerateSolution_begin_def)
  have a': "blank ''problemInput''
      (tutor.problemInput (s\<lparr>tutor.solution := old, tutor.stepExplanations := cache\<rparr>)) = Inr False"
    using assms by simp
  have same: "handleGenerateSolution srv ls (s\<lparr>tutor.solution := old, tutor.stepExplanations := cache\<rparr>)
           = handleGenerateSolution srv ls s"
    unfolding handleGenerateSolution_nonblank [OF assms] handleGenerateSolution_nonblank [OF a']
    by (simp add: handleGenerateSolution_begin_forgets)
  show ?thesis
    using b same
    by (simp add: handleGenerateSolution_nonblank [OF assms] handleGenerateSolution_resume_requests
          handleGenerateSolution_resume_solution handleGenerateSolution_resume_cache)
qed

lemma solve_replaces_result_example:
  "blank ''problemInput'' (tutor.problemInput (initial_tutor\<lparr>problemInput := JStr ''2x+5=11''\<rparr>)) = Inr False
   \<and> (\<exists>s2 es. handleGenerateSolution
         (\<lambda>r. Response 200 (Inr (JObj [(''final_answer'', JStr ''x=3'')]))) Map.empty
         (initial_tutor\<lparr>problemInput := JStr ''2x+5=11''\<rparr>) = Inr (s2, es)
        \<and> tutor.solution s2 = JObj [(''final_answer'', JStr ''x=3'')]
        \<and> tutor.stepExplanations s2 = Map.empty)"
proof -
  have h: "blank ''problemInput'' (tutor.problemInput (initial_tutor\<lparr>problemInput := JStr ''2x+5=11''\<rparr>)) = Inr False"
    by (simp add: blank_def js_trim_example)
  have ok: "response_ok 200" by (simp add: response_ok_def)
  have t: "solve_try (Response 200 (Inr (JObj [(''final_answer'', JStr ''x=3'')])))
      = Inr (JObj [(''final_answer'', JStr ''x=3'')])"
    by (simp add: solve_try_def ok bindE_def)
  from solve_replaces_result [OF h,
      where srv = "\<lambda>r. Response 200 (Inr (JObj [(''final_answer'', JStr ''x=3'')]))"
        and ls = Map.empty and old = JNull and cache = Map.empty]
  obtain s2 es where
    "handleGenerateSolution (\<lambda>r. Response 200 (Inr (JObj [(''final_answer'', JStr ''x=3'')])))
       Map.empty (initial_tutor\<lparr>problemInput := JStr ''2x+5=11''\<rparr>) = Inr (s2, es)"
    "tutor.solution s2 =
       (case solve_try ((\<lambda>r. Response 200 (Inr (JObj [(''final_answer'', JStr ''x=3'')])))
          (solve_request Map.empty (tutor.problemInput (initial_tutor\<lparr>problemInput := JStr ''2x+5=11''\<rparr>)))) of
          Inr data \<Rightarrow> data | Inl e \<Rightarrow> JNull)"
    "tutor.stepExplanations s2 = Map.empty"
    by blast
  with h t show ?thesis by simp
qed

lemma js_trim_new_problem: "js_trim ''3x=9'' = ''3x=9''"
  by code_simp

lemma explain_try_old:
  "explain_try (Response 200 (Inr (JObj [(''explanation'', JStr ''Because 5 was added.'')])))
     = Inr (JStr ''Because 5 was added.'')"
  by (simp add: explain_try_def response_ok_def bindE_def)

lemma solve_try_new: "solve_try (Response 200 (Inr new_solution)) = Inr new_solution"
  by (simp add: solve_try_def response_ok_def bindE_def new_solution_def)

text \<open>
  Claim C6 says that, the cache being cleared when a solve request begins, no explanation
  from a prior result survives into a new result. The code clears the cache wherever it
  resets the solution, and disables the explain buttons while a solve is loading; but the
  Solve button is not disabled while an explanation is loading, and the continuation of
  \<^verbatim>\<open>handleExplainStep\<close> (lines 415 to 418) writes its entry whenever its response arrives.
  Here the old solution \<^verbatim>\<open>2x+5=11\<close> is on the screen and the input holds \<^verbatim>\<open>3x=9\<close>: the
  user asks why for step 1, then presses Solve; the cache is cleared and the new solution
  arrives; then the response to the earlier question arrives. At the end the solution is
  the new one, and step 1 of the cache holds the explanation of the old step 1.
\<close>

theorem stale_explanation_survives_solve:
  "truthy (tutor.solution run_start)
   \<and> blank ''problemInput'' (tutor.problemInput run_why_sent) = Inr False
   \<and> tutor.isLoadingSolution run_why_sent = False
   \<and> tutor.stepExplanations run_solve_sent = Map.empty
   \<and> tutor.solution run_why_answered = new_solution
   \<and> tutor.stepExplanations run_why_answered 1
       = Some \<lparr>explanation = JStr ''Because 5 was added.'', isLoading = False,
                error = JNull, queryType = None\<rparr>"
proof -
  have t: "truthy (tutor.solution run_start)"
    by (simp add: run_start_def old_solution_def)
  have sent: "tutor.problemInput run_why_sent = JStr ''3x=9''
      \<and> tutor.isLoadingSolution run_why_sent = False"
    by (simp add: run_why_sent_def run_start_def handleExplainStep_begin_def initial_tutor_def)
  have cleared: "tutor.stepExplanations run_solve_sent = Map.empty"
    by (simp add: run_solve_sent_def handleGenerateSolution_begin_def)
  have solved: "tutor.solution run_solved = new_solution
      \<and> tutor.stepExplanations run_solved = Map.empty"
    by (simp add: run_solved_def handleGenerateSolution_resume_def solve_try_new cleared)
  have answered: "tutor.solution run_why_answered = new_solution
      \<and> tutor.stepExplanations run_why_answered 1
          = Some \<lparr>explanation = JStr ''Because 5 was added.'', isLoading = False,
                   error = JNull, queryType = None\<rparr>"
    by (simp add: run_why_answered_def handleExplainStep_resume_def explain_try_old solved
          entry_explained_def)
  from t sent cleared answered show ?thesis
    by (simp add: blank_def js_trim_new_problem)
qed

lemma handleExplainStep_begin_other:
  "m \<noteq> n \<Longrightarrow> tutor.stepExplanations (handleExplainStep_begin n q s) m = tutor.stepExplanations s m"
  by (simp add: handleExplainStep_begin_def)

lemma handleExplainStep_catch_other:
  "m \<noteq> n \<Longrightarrow> tutor.stepExplanations (fst (handleExplainStep_catch n e s)) m = tutor.stepExplanations s m"
  by (simp add: handleExplainStep_catch_def Let_def)

lemma handleExplainStep_resume_other:
  "m \<noteq> n \<Longrightarrow> tutor.stepExplanations (fst (handleExplainStep_resume n out s)) m = tutor.stepExplanations s m"
  by (simp add: handleExplainStep_resume_def handleExplainStep_catch_other split: sum.splits)

lemma handleExplainStep_other:
  "m \<noteq> n \<Longrightarrow> tutor.stepExplanations (fst (handleExplainStep srv ls n q s)) m = tutor.stepExplanations s m"
  by (simp add: handleExplainStep_def Let_def handleExplainStep_catch_other
        handleExplainStep_resume_other handleExplainStep_begin_other split: sum.splits prod.splits)
     (metis fst_conv handleExplainStep_begin_other handleExplainStep_resume_other)

text \<open>
  Claim C7: for every step number \<open>n\<close>, the start of an explain-step request for \<open>n\<close>, its
  success and its failure change only the entry of the cache keyed by \<open>n\<close>: the entry of
  every other step (its text, loading flag, error and query kind) is the same before and
  after, also over the whole handler.
\<close>

theorem explain_step_frame:
  assumes "m \<noteq> n"
  shows "tutor.stepExplanations (handleExplainStep_begin n q s) m = tutor.stepExplanations s m
       \<and> tutor.stepExplanations (fst (handleExplainStep_resume n out s)) m = tutor.stepExplanations s m
       \<and> tutor.stepExplanations (fst (handleExplainStep_catch n e s)) m = tutor.stepExplanations s m
       \<and> tutor.stepExplanations (fst (handleExplainStep srv ls n q s)) m = tutor.stepExplanations s m"
  using assms
  by (simp add: handleExplainStep_begin_other handleExplainStep_resume_other
        handleExplainStep_catch_other handleExplainStep_other)

theorem explain_step_frame_witness:
  "(1::int) \<noteq> 2
   \<and> tutor.stepExplanations
        (handleExplainStep_begin 2 Why (handleExplainStep_begin 1 How initial_tutor)) 1
       = Some \<lparr>explanation = JUndefined, isLoading = True, error = JNull, queryType = Some How\<rparr>
   \<and> tutor.stepExplanations
        (fst (handleExplainStep_resume 2
           (Response 200 (Inr (JObj [(''explanation'', JStr ''because'')])))
           (handleExplainStep_begin 2 Why (handleExplainStep_begin 1 How initial_tutor)))) 1
       = Some \<lparr>explanation = JUndefined, isLoading = True, error = JNull, queryType = Some How\<rparr>"
proof -
  have h: "(1::int) \<noteq> 2" by simp
  have s1: "tutor.stepExplanations (handleExplainStep_begin 1 How initial_tutor) 1
      = Some \<lparr>explanation = JUndefined, isLoading = True, error = JNull, queryType = Some How\<rparr>"
    by (simp add: handleExplainStep_begin_def initial_tutor_def entry_loading_def)
  from explain_step_frame [OF h, of Why "handleExplainStep_begin 1 How initial_tutor"]
    explain_step_frame [OF h, of Why "handleExplainStep_begin 2 Why (handleExplainStep_begin 1 How initial_tutor)"
      "Response 200 (Inr (JObj [(''explanation'', JStr ''because'')]))"]
    s1 h
  show ?thesis by simp
qed

lemma solve_requests_upload: "solve_requests [Fetch (upload_request f)] = []"
  by (simp add: solve_requests_def upload_request_def)

lemma solve_requests_of_requests:
  "requests es = requests es' \<Longrightarrow> solve_requests es = solve_requests es'"
  by (simp add: solve_requests_def)

lemma extractQuestion_requests:
  "requests (snd (extractQuestion srv s)) =
     (case tutor.selectedFile s of None \<Rightarrow> [] | Some f \<Rightarrow> [upload_request f])"
  by (simp add: extractQuestion_no_file extractQuestion_file split: option.splits)

lemma Index_extractQuestion_requests:
  "requests (snd (Index_extractQuestion srv p)) =
     (case index_page.selectedFile p of None \<Rightarrow> [] | Some f \<Rightarrow> [upload_request f])"
  by (simp add: Index_extractQuestion_no_file Index_extractQuestion_file split: option.splits)

lemma extractQuestion_resume_solution:
  "tutor.solution (fst (extractQuestion_resume out s)) = tutor.solution s
   \<and> tutor.isLoadingSolution (fst (extractQuestion_resume out s)) = tutor.isLoadingSolution s"
  by (simp add: extractQuestion_resume_def Let_def resetUploadState_def split: sum.splits)

lemma extractQuestion_file_eq:
  "tutor.selectedFile s = Some f \<Longrightarrow>
   extractQuestion srv s =
     (fst (extractQuestion_resume (srv (upload_request f)) (extractQuestion_begin s)),
      Fetch (upload_request f) # snd (extractQuestion_resume (srv (upload_request f)) (extractQuestion_begin s)))"
  by (simp add: extractQuestion_def Let_def split: prod.splits)

text \<open>
  Claim C8: an extraction, on either screen, sends no request to the processing endpoint:
  its only request is the upload of the selected file. On success it puts the extracted
  text into the input cell and changes nothing else but the upload state; the solution
  stays null and no solve is started.
\<close>

theorem extraction_never_solves:
  "solve_requests (snd (extractQuestion srv s)) = []
   \<and> solve_requests (snd (Index_extractQuestion srv p)) = []
   \<and> requests (snd (extractQuestion srv s)) =
       (case tutor.selectedFile s of None \<Rightarrow> [] | Some f \<Rightarrow> [upload_request f])
   \<and> requests (snd (Index_extractQuestion srv p)) =
       (case index_page.selectedFile p of None \<Rightarrow> [] | Some f \<Rightarrow> [upload_request f])
   \<and> (tutor.selectedFile s \<noteq> None \<longrightarrow>
        tutor.solution (fst (extractQuestion srv s)) = JNull
        \<and> tutor.isLoadingSolution (fst (extractQuestion srv s)) = tutor.isLoadingSolution s)
   \<and> (extract_try out = Inr x \<longrightarrow>
        extractQuestion_resume out s =
          ((resetUploadState s)\<lparr>tutor.problemInput := x, tutor.loadingOcr := False\<rparr>,
           [Toast ''Text Extracted''
              (if truthy x then ''Review text in the input area below.''
               else ''No text found in image.'') False])
        \<and> Index_extractQuestion_resume out p =
          (p\<lparr>index_page.ocrText := x, index_page.loadingOcr := False\<rparr>,
           [Toast ''Text Extracted'' ''Review the text below and edit if needed.'' False]))"
proof -
  have t: "solve_requests (snd (extractQuestion srv s)) = []"
    by (cases "tutor.selectedFile s")
       (simp_all add: solve_requests_def extractQuestion_requests upload_request_def)
  have i: "solve_requests (snd (Index_extractQuestion srv p)) = []"
    by (cases "index_page.selectedFile p")
       (simp_all add: solve_requests_def Index_extractQuestion_requests upload_request_def)
  have sol: "tutor.selectedFile s \<noteq> None \<longrightarrow>
        tutor.solution (fst (extractQuestion srv s)) = JNull
        \<and> tutor.isLoadingSolution (fst (extractQuestion srv s)) = tutor.isLoadingSolution s"
    by (auto simp: extractQuestion_file_eq extractQuestion_resume_solution extractQuestion_begin_def)
  have ok: "extract_try out = Inr x \<longrightarrow>
        extractQuestion_resume out s =
          ((resetUploadState s)\<lparr>tutor.problemInput := x, tutor.loadingOcr := False\<rparr>,
           [Toast ''Text Extracted''
              (if truthy x then ''Review text in the input area below.''
               else ''No text found in image.'') False])
        \<and> Index_extractQuestion_resume out p =
          (p\<lparr>index_page.ocrText := x, index_page.loadingOcr := False\<rparr>,
           [Toast ''Text Extracted'' ''Review the text below and edit if needed.'' False])"
    by (simp add: extractQuestion_resume_def Index_extractQuestion_resume_def resetUploadState_def)
  from t i sol ok show ?thesis
    by (simp add: extractQuestion_requests Index_extractQuestion_requests)
qed

lemma extract_try_success:
  "extract_try (Response 200 (Inr (JObj [(''status'', JStr ''success''), (''extracted_text'', JStr ''2x+5=11'')])))
     = Inr (JStr ''2x+5=11'')"
  by (simp add: extract_try_def response_ok_def bindE_def js_or_def)

theorem extraction_never_solves_witness:
  "tutor.selectedFile (initial_tutor\<lparr>tutor.selectedFile := Some (File ''p.png'' ''image/png'' 2048)\<rparr>) \<noteq> None
   \<and> extract_try (Response 200 (Inr (JObj [(''status'', JStr ''success''), (''extracted_text'', JStr ''2x+5=11'')])))
       = Inr (JStr ''2x+5=11'')
   \<and> tutor.solution (fst (extractQuestion
        (\<lambda>r. Response 200 (Inr (JObj [(''status'', JStr ''success''), (''extracted_text'', JStr ''2x+5=11'')])))
        (initial_tutor\<lparr>tutor.selectedFile := Some (File ''p.png'' ''image/png'' 2048)\<rparr>))) = JNull
   \<and> solve_requests (snd (extractQuestion
        (\<lambda>r. Response 200 (Inr (JObj [(''status'', JStr ''success''), (''extracted_text'', JStr ''2x+5=11'')])))
        (initial_tutor\<lparr>tutor.selectedFile := Some (File ''p.png'' ''image/png'' 2048)\<rparr>))) = []
   \<and> tutor.problemInput (fst (extractQuestion_resume
        (Response 200 (Inr (JObj [(''status'', JStr ''success''), (''extracted_text'', JStr ''2x+5=11'')])))
        (extractQuestion_begin (initial_tutor\<lparr>tutor.selectedFile := Some (File ''p.png'' ''image/png'' 2048)\<rparr>))))
       = JStr ''2x+5=11''"
  using extraction_never_solves
    [of "\<lambda>r. Response 200 (Inr (JObj [(''status'', JStr ''success''), (''extracted_text'', JStr ''2x+5=11'')]))"
        "initial_tutor\<lparr>tutor.selectedFile := Some (File ''p.png'' ''image/png'' 2048)\<rparr>"
        initial_index
        "Response 200 (Inr (JObj [(''status'', JStr ''success''), (''extracted_text'', JStr ''2x+5=11'')]))"
        "JStr ''2x+5=11''"]
    extraction_never_solves
    [of "\<lambda>r. Response 200 (Inr (JObj [(''status'', JStr ''success''), (''extracted_text'', JStr ''2x+5=11'')]))"
        "extractQuestion_begin (initial_tutor\<lparr>tutor.selectedFile := Some (File ''p.png'' ''image/png'' 2048)\<rparr>)"
        initial_index
        "Response 200 (Inr (JObj [(''status'', JStr ''success''), (''extracted_text'', JStr ''2x+5=11'')]))"
        "JStr ''2x+5=11''"]
    extract_try_success
  by simp

text \<open>
  Claim C9: for every state of the solver page, in particular one with a result, a
  non-empty input text and a preview, \<^verbatim>\<open>tryAnother\<close> yields a state in which the input
  text is empty and the preview, the result and the error are null, all at once (the
  selected file is cleared and both loading flags are false as well).
\<close>

theorem reset_clears_all:
  "index_page.ocrText (tryAnother s) = JStr []
   \<and> index_page.imagePreviewUrl (tryAnother s) = None
   \<and> index_page.solveResult (tryAnother s) = JNull
   \<and> index_page.apiError (tryAnother s) = None
   \<and> index_page.selectedFile (tryAnother s) = None
   \<and> index_page.loadingOcr (tryAnother s) = False
   \<and> index_page.loadingSolve (tryAnother s) = False"
  by (simp add: tryAnother_def resetState_def)

theorem reset_clears_all_witness:
  "index_page.solveResult (initial_index\<lparr>index_page.imagePreviewUrl := Some ''data:image/png;base64,AA'',
       index_page.ocrText := JStr ''2x+5=11'',
       index_page.solveResult := JObj [(''final_answer'', JStr ''x=3'')]\<rparr>) \<noteq> JNull
   \<and> index_page.ocrText (tryAnother (initial_index\<lparr>index_page.imagePreviewUrl := Some ''data:image/png;base64,AA'',
       index_page.ocrText := JStr ''2x+5=11'',
       index_page.solveResult := JObj [(''final_answer'', JStr ''x=3'')]\<rparr>)) = JStr []
   \<and> index_page.solveResult (tryAnother (initial_index\<lparr>index_page.imagePreviewUrl := Some ''data:image/png;base64,AA'',
       index_page.ocrText := JStr ''2x+5=11'',
       index_page.solveResult := JObj [(''final_answer'', JStr ''x=3'')]\<rparr>)) = JNull
   \<and> index_page.imagePreviewUrl (tryAnother (initial_index\<lparr>index_page.imagePreviewUrl := Some ''data:image/png;base64,AA'',
       index_page.ocrText := JStr ''2x+5=11'',
       index_page.solveResult := JObj [(''final_answer'', JStr ''x=3'')]\<rparr>)) = None"
  using reset_clears_all [of "initial_index\<lparr>index_page.imagePreviewUrl := Some ''data:image/png;base64,AA'',
       index_page.ocrText := JStr ''2x+5=11'',
       index_page.solveResult := JObj [(''final_answer'', JStr ''x=3'')]\<rparr>"]
  by simp

lemma extract_try_not_ok: "\<not> response_ok status \<Longrightarrow> isl (extract_try (Response status b))"
proof (cases b)
  case (Inl m)
  then show ?thesis by (simp add: extract_try_def)
next
  case (Inr data)
  assume n: "\<not> response_ok status"
  from get_prop_cases [of data] show ?thesis
  proof
    assume "\<forall>k. \<exists>e. get_prop data k = Inl e"
    then obtain e1 where "get_prop data ''detail'' = Inl e1" by metis
    with Inr n show ?thesis by (simp add: extract_try_def bindE_def)
  next
    assume "\<forall>k. \<exists>w. get_prop data k = Inr w"
    then obtain d e where "get_prop data ''detail'' = Inr d" "get_prop data ''error'' = Inr e"
      by metis
    with Inr n show ?thesis by (simp add: extract_try_def bindE_def)
  qed
qed

lemma extractQuestion_begin_forgets:
  "extractQuestion_begin (s\<lparr>tutor.problemInput := typed\<rparr>) = extractQuestion_begin s"
  by (simp add: extractQuestion_begin_def)

lemma extractQuestion_resume_input:
  "tutor.problemInput (fst (extractQuestion_resume out s)) =
     (case extract_try out of Inl e \<Rightarrow> JStr [] | Inr x \<Rightarrow> x)"
  by (simp add: extractQuestion_resume_def Let_def resetUploadState_def split: sum.splits)

text \<open>
  Claim C10: when an extraction starts on the tutor screen (a file is selected), the
  problem input is set to the empty string before the request is sent; if the extraction
  fails in any way (the request is rejected, the status is not ok, or the \<^verbatim>\<open>try\<close> block
  throws for another reason) the problem input is the empty string at the end; and the
  final state does not depend on the text that was in the input before, so that text is
  lost whatever the outcome.
\<close>

theorem extraction_discards_typed_text:
  assumes "tutor.selectedFile s = Some f"
  shows "tutor.problemInput (extractQuestion_begin s) = JStr []
       \<and> tutor.problemInput (fst (extractQuestion srv s)) =
           (case extract_try (srv (upload_request f)) of Inl e \<Rightarrow> JStr [] | Inr x \<Rightarrow> x)
       \<and> (isl (extract_try (srv (upload_request f))) \<longrightarrow>
            tutor.problemInput (fst (extractQuestion srv s)) = JStr [])
       \<and> isl (extract_try (Rejected m))
       \<and> (\<not> response_ok status \<longrightarrow> isl (extract_try (Response status b)))
       \<and> extractQuestion srv (s\<lparr>tutor.problemInput := typed\<rparr>) = extractQuestion srv s"
proof -
  have a': "tutor.selectedFile (s\<lparr>tutor.problemInput := typed\<rparr>) = Some f"
    using assms by simp
  have same: "extractQuestion srv (s\<lparr>tutor.problemInput := typed\<rparr>) = extractQuestion srv s"
    unfolding extractQuestion_file_eq [OF assms] extractQuestion_file_eq [OF a']
    by (simp add: extractQuestion_begin_forgets)
  have fin: "tutor.problemInput (fst (extractQuestion srv s)) =
           (case extract_try (srv (upload_request f)) of Inl e \<Rightarrow> JStr [] | Inr x \<Rightarrow> x)"
    by (simp add: extractQuestion_file_eq [OF assms] extractQuestion_resume_input)
  have fail: "isl (extract_try (srv (upload_request f))) \<longrightarrow>
            tutor.problemInput (fst (extractQuestion srv s)) = JStr []"
    by (auto simp: fin isl_def)
  have rej: "isl (extract_try (Rejected m))" by (simp add: extract_try_def)
  from same fin fail rej show ?thesis
    by (simp add: extractQuestion_begin_def extract_try_not_ok)
qed

theorem extraction_discards_typed_text_witness:
  "tutor.selectedFile (initial_tutor\<lparr>tutor.problemInput := JStr ''x^2 = 4'',
       tutor.selectedFile := Some (File ''p.png'' ''image/png'' 2048)\<rparr>)
     = Some (File ''p.png'' ''image/png'' 2048)
   \<and> isl (extract_try ((\<lambda>r. Response 500 (Inr (JObj [(''detail'', JStr ''OCR down'')])))
        (upload_request (File ''p.png'' ''image/png'' 2048))))
   \<and> tutor.problemInput (fst (extractQuestion
        (\<lambda>r. Response 500 (Inr (JObj [(''detail'', JStr ''OCR down'')])))
        (initial_tutor\<lparr>tutor.problemInput := JStr ''x^2 = 4'',
           tutor.selectedFile := Some (File ''p.png'' ''image/png'' 2048)\<rparr>))) = JStr []"
proof -
  have h: "tutor.selectedFile (initial_tutor\<lparr>tutor.problemInput := JStr ''x^2 = 4'',
       tutor.selectedFile := Some (File ''p.png'' ''image/png'' 2048)\<rparr>)
     = Some (File ''p.png'' ''image/png'' 2048)" by simp
  have n: "\<not> response_ok 500" by (simp add: response_ok_def)
  from extraction_discards_typed_text [OF h,
      where srv = "\<lambda>r. Response 500 (Inr (JObj [(''detail'', JStr ''OCR down'')]))"
        and status = 500 and b = "Inr (JObj [(''detail'', JStr ''OCR down'')])"
        and m = "[]" and typed = "JStr []"] h n
  show ?thesis by (auto simp: isl_def)
qed

end
